theory Spec2Isabelle
  imports Main "HOL-Library.Monad_Syntax" "HOL-Library.Signed_Division"
begin

section \<open>Go primitives used by ui.go\<close>

text \<open>
  A Go \<open>string\<close> is a sequence of bytes and \<open>len\<close> counts bytes, so strings are
  \<^typ>\<open>string\<close> (lists of 8-bit characters); a character outside ASCII is the list of
  its UTF-8 bytes.  Go's \<open>int\<close> is modelled by \<^typ>\<open>int\<close>: the integers of ui.go are
  terminal dimensions, string lengths and list indices, on which none of its sums and
  differences leaves the 64 bits of the machine type; a theorem that needs a range states
  it.  A run-time panic (slice bounds out of range, negative repeat count, integer
  division by zero, index out of range, \<open>nil\<close> dereference) is the value \<open>None\<close>.
\<close>

definition go_len :: "'a list \<Rightarrow> int" where
  "go_len xs = int (length xs)"

text \<open>\<open>s[:k]\<close> and \<open>s[k:]\<close>; both panic unless \<open>0 \<le> k \<le> len(s)\<close>.\<close>

definition slice_to :: "'a list \<Rightarrow> int \<Rightarrow> 'a list option" where
  "slice_to s k = (if 0 \<le> k \<and> k \<le> go_len s then Some (take (nat k) s) else None)"

definition slice_from :: "'a list \<Rightarrow> int \<Rightarrow> 'a list option" where
  "slice_from s k = (if 0 \<le> k \<and> k \<le> go_len s then Some (drop (nat k) s) else None)"

text \<open>\<open>strings.Repeat(s, n)\<close> panics on a negative count.\<close>

definition strings_Repeat :: "string \<Rightarrow> int \<Rightarrow> string option" where
  "strings_Repeat s n = (if n < 0 then None else Some (concat (replicate (nat n) s)))"

definition strings_HasPrefix :: "string \<Rightarrow> string \<Rightarrow> bool" where
  "strings_HasPrefix s p = (take (length p) s = p)"

text \<open>\<open>strings.Index(s, sep)\<close>: the position of the first occurrence of \<open>sep\<close>, or \<open>-1\<close>.\<close>

fun strings_Index :: "string \<Rightarrow> string \<Rightarrow> int" where
  "strings_Index [] sep = (if sep = [] then 0 else - 1)"
| "strings_Index (c # s) sep =
     (if strings_HasPrefix (c # s) sep then 0
      else (let i = strings_Index s sep in if i < 0 then - 1 else i + 1))"

definition strings_Contains :: "string \<Rightarrow> string \<Rightarrow> bool" where
  "strings_Contains s sep = (0 \<le> strings_Index s sep)"

text \<open>\<open>strings.SplitN(s, sep, 2)\<close> for a non-empty separator: at most two parts, cut at
  the first occurrence of \<open>sep\<close>.\<close>

definition strings_SplitN2 :: "string \<Rightarrow> string \<Rightarrow> string list" where
  "strings_SplitN2 s sep =
     (let i = strings_Index s sep
      in if i < 0 then [s] else [take (nat i) s, drop (nat i + length sep) s])"

subsection \<open>The expression \<open>int(float64(n) * c)\<close>\<close>

text \<open>
  A non-negative binary floating-point value is a pair \<open>(m, e)\<close> with \<open>0 \<le> m\<close>, standing for
  \<open>m * 2 ^ e\<close>.  \<open>round_to_f64\<close> rounds such a value to the 53 significant bits of a
  \<open>float64\<close>, to nearest with ties to even, which is what the conversion
  \<open>float64(n)\<close> and the multiplication do (the exponents met here are far from the
  limits of the format).  The conversion back to \<open>int\<close> truncates toward zero.
\<close>

function excess_bits :: "int \<Rightarrow> nat" where
  "excess_bits m = (if m < 2 ^ 53 then 0 else Suc (excess_bits (m div 2)))"
  by pat_completeness auto
termination
  by (relation "measure nat") auto

declare excess_bits.simps [simp del]

definition round_to_f64 :: "int \<times> int \<Rightarrow> int \<times> int" where
  "round_to_f64 v =
     (case v of (m, e) \<Rightarrow>
        let s = excess_bits m
        in if s = 0 then (m, e)
           else let q = m div 2 ^ s;
                    r = m mod 2 ^ s;
                    half = 2 ^ (s - 1);
                    q' = (if half < r \<or> (r = half \<and> odd q) then q + 1 else q)
                in (q', e + int s))"

definition f64_truncate :: "int \<times> int \<Rightarrow> int" where
  "f64_truncate v = (case v of (m, e) \<Rightarrow> if 0 \<le> e then m * 2 ^ nat e else m div 2 ^ nat (- e))"

definition int_of_float64_mul :: "int \<Rightarrow> int \<times> int \<Rightarrow> int" where
  "int_of_float64_mul n c =
     (let a = round_to_f64 (\<bar>n\<bar>, 0);
          p = round_to_f64 (fst a * fst c, snd a + snd c);
          t = f64_truncate p
      in if n < 0 then - t else t)"

text \<open>The \<open>float64\<close> constants nearest to 0.40, 0.45 and 0.15.\<close>

definition f64_0_40 :: "int \<times> int" where
  "f64_0_40 = (7205759403792794, - 54)"

definition f64_0_45 :: "int \<times> int" where
  "f64_0_45 = (8106479329266893, - 54)"

definition f64_0_15 :: "int \<times> int" where
  "f64_0_15 = (5404319552844595, - 55)"

section \<open>Data model\<close>

text \<open>
  Field names carry a prefix where two structs of the source share a field name
  (\<open>Width\<close>, \<open>Height\<close>, \<open>SupportsANSI\<close>), since record fields are global constants.
\<close>

record Environment =
  Name :: string
  URL :: string
  APIKey :: string
  Model :: string
  EnvVars :: "(string \<times> string) list"

record terminalCapabilities =
  IsTerminal :: bool
  SupportsRaw :: bool
  SupportsANSI :: bool
  SupportsCursor :: bool
  Width :: int
  Height :: int

record TerminalLayout =
  layout_Width :: int
  layout_Height :: int
  layout_SupportsANSI :: bool
  ContentWidth :: int
  TruncationLimit :: int

record DisplayFormatter =
  layout :: TerminalLayout
  nameWidth :: int
  urlWidth :: int
  modelWidth :: int

record DisplayState =
  currentLines :: "string list"
  headerLine :: string
  footerLine :: string
  terminalWidth :: int
  terminalHeight :: int
  lastSelection :: int
  currentSelection :: int
  initialized :: bool
  contentChanged :: bool
  selectionChanged :: bool

text \<open>
  What the operating system answers during one selection call: whether standard input
  is a terminal, the environment, whether \<open>term.MakeRaw\<close> succeeds, the error of
  \<open>term.Restore\<close> if it fails, the size \<open>term.GetSize\<close> reports if it succeeds, and
  what \<open>os.Stdout.Stat\<close> gives (\<open>None\<close> when it fails, otherwise whether the mode has
  the \<open>ModeCharDevice\<close> bit), and the error of a write to standard output if writes fail.
\<close>

record system =
  stdin_is_terminal :: bool
  getenv :: "string \<Rightarrow> string"
  make_raw_ok :: bool
  restore_error :: "string option"
  get_size :: "(int \<times> int) option"
  stdout_stat :: "bool option"
  stdout_write_error :: "string option"

text \<open>
  \<open>Config\<close> is read for its environments only.  The saved state of \<open>term.MakeRaw\<close> is
  opaque; \<open>None\<close> is the \<open>nil\<close> pointer of a handle whose acquisition failed.
\<close>

record Config =
  Environments :: "Environment list"

datatype term_State = SavedState

record terminalState =
  fd :: int
  oldState :: "term_State option"
  restored :: bool

section \<open>Capability probe and layout\<close>

definition detectTerminalCapabilities :: "system \<Rightarrow> terminalCapabilities" where
  "detectTerminalCapabilities sys =
     (let termType = getenv sys ''TERM'';
          ansi = (termType \<noteq> '''' \<and> termType \<noteq> ''dumb'' \<and> \<not> strings_HasPrefix termType ''vt5'');
          caps = \<lparr> IsTerminal = stdin_is_terminal sys, SupportsRaw = False,
                   SupportsANSI = ansi, SupportsCursor = ansi, Width = 80, Height = 24 \<rparr>
      in if IsTerminal caps then
           (let caps1 = (if make_raw_ok sys
                         then caps\<lparr> SupportsRaw := (restore_error sys = None) \<rparr>
                         else caps)
            in case get_size sys of
                 Some (width, height) \<Rightarrow> caps1\<lparr> Width := width, Height := height \<rparr>
               | None \<Rightarrow> caps1)
         else caps)"

definition detectTerminalLayout :: "system \<Rightarrow> TerminalLayout" where
  "detectTerminalLayout sys =
     (let caps = detectTerminalCapabilities sys;
          layout0 = \<lparr> layout_Width = Width caps, layout_Height = Height caps,
                      layout_SupportsANSI = SupportsANSI caps,
                      ContentWidth = 0, TruncationLimit = 0 \<rparr>;
          uiOverhead = (if layout_Width layout0 < 40 then 4 else 8);
          layout1 = layout0\<lparr> ContentWidth := layout_Width layout0 - uiOverhead \<rparr>;
          layout2 = (if ContentWidth layout1 < 20 then layout1\<lparr> ContentWidth := 20 \<rparr>
                     else layout1);
          layout3 = layout2\<lparr> TruncationLimit := ContentWidth layout2 - 10 \<rparr>
      in if TruncationLimit layout3 < 10 then layout3\<lparr> TruncationLimit := 10 \<rparr>
         else layout3)"

definition newDisplayFormatter :: "TerminalLayout \<Rightarrow> DisplayFormatter" where
  "newDisplayFormatter lay =
     (let contentSpace = ContentWidth lay;
          f0 = \<lparr> layout = lay,
                  nameWidth = int_of_float64_mul contentSpace f64_0_40,
                  urlWidth = int_of_float64_mul contentSpace f64_0_45,
                  modelWidth = int_of_float64_mul contentSpace f64_0_15 \<rparr>;
          f1 = (if nameWidth f0 < 8 then f0\<lparr> nameWidth := 8 \<rparr> else f0);
          f2 = (if urlWidth f1 < 10 then f1\<lparr> urlWidth := 10 \<rparr> else f1)
      in if modelWidth f2 < 6 then f2\<lparr> modelWidth := 6 \<rparr> else f2)"

section \<open>Truncation\<close>

definition smartTruncateName :: "DisplayFormatter \<Rightarrow> string \<Rightarrow> (string \<times> bool) option" where
  "smartTruncateName df name =
     (if go_len name \<le> nameWidth df then Some (name, False)
      else if nameWidth df < 8 then
        do { p \<leftarrow> slice_to name (nameWidth df - 3); Some (p @ ''...'', True) }
      else
        (let prefixLen = (nameWidth df - 3) sdiv 2;
             suffixLen = nameWidth df - 3 - prefixLen
         in do { p \<leftarrow> slice_to name prefixLen;
                 s \<leftarrow> slice_from name (go_len name - suffixLen);
                 Some (p @ ''...'' @ s, True) }))"

definition smartTruncateURL :: "DisplayFormatter \<Rightarrow> string \<Rightarrow> (string \<times> bool) option" where
  "smartTruncateURL df url =
     (if go_len url \<le> urlWidth df then Some (url, False)
      else
        (let fallback = do { p \<leftarrow> slice_to url (urlWidth df - 3); Some (p @ ''...'', True) }
         in if strings_Contains url ''://'' then
              (case strings_SplitN2 url ''://'' of
                 [p0, p1] \<Rightarrow>
                   (let protocol = p0 @ ''://'';
                        remaining = p1;
                        i = strings_Index remaining ''/'';
                        domainEndIdx = (if i = - 1 then go_len remaining else i)
                    in do { domain \<leftarrow> slice_to remaining domainEndIdx;
                            let protocolDomainLen = go_len protocol + go_len domain;
                            if protocolDomainLen \<le> urlWidth df - 3
                            then Some (protocol @ domain @ ''...'', True)
                            else fallback })
               | _ \<Rightarrow> fallback)
            else fallback))"

definition smartTruncateModel :: "DisplayFormatter \<Rightarrow> string \<Rightarrow> (string \<times> bool) option" where
  "smartTruncateModel df model =
     (if model = '''' then Some (''default'', False)
      else if go_len model \<le> modelWidth df then Some (model, False)
      else do { p \<leftarrow> slice_to model (modelWidth df - 3); Some (p @ ''...'', True) })"

section \<open>Single-line composition\<close>

text \<open>
  The block that \<open>formatSingleLine\<close> repeats for the name, the URL and the model: a field
  longer than its space is cut to the space, with an ellipsis when the space has more than
  three characters.
\<close>

definition truncate_to_space :: "string \<Rightarrow> int \<Rightarrow> string option" where
  "truncate_to_space field space =
     (if go_len field > space then
        (if space > 3 then do { p \<leftarrow> slice_to field (space - 3); Some (p @ ''...'') }
         else slice_to field space)
      else Some field)"

definition formatSingleLine :: "DisplayFormatter \<Rightarrow> string \<Rightarrow> Environment \<Rightarrow> string option" where
  "formatSingleLine df prefix env =
     (let prefixLen = go_len prefix;
          staticOverhead = 6;
          maxContentLen = layout_Width (layout df) - prefixLen - staticOverhead
      in if maxContentLen < 20 then
           do { name \<leftarrow> (if go_len (Name env) > 10
                         then do { p \<leftarrow> slice_to (Name env) 7; Some (p @ ''...'') }
                         else Some (Name env));
                Some (prefix @ name) }
         else
           (let nameSpace0 = int_of_float64_mul maxContentLen f64_0_40;
                urlSpace0 = int_of_float64_mul maxContentLen f64_0_45;
                modelSpace0 = maxContentLen - nameSpace0 - urlSpace0;
                nameSpace = (if nameSpace0 < 8 then 8 else nameSpace0);
                urlSpace = (if urlSpace0 < 10 then 10 else urlSpace0);
                modelSpace = (if modelSpace0 < 6 then 6 else modelSpace0)
            in do { name \<leftarrow> truncate_to_space (Name env) nameSpace;
                    url \<leftarrow> truncate_to_space (URL env) urlSpace;
                    model \<leftarrow> truncate_to_space
                               (if Model env = '''' then ''default'' else Model env) modelSpace;
                    let line = prefix @ name @ '' ('' @ url @ '') ['' @ model @ '']'';
                    if go_len line > layout_Width (layout df) then
                      (let maxLen = layout_Width (layout df) - 3
                       in if maxLen > 0
                          then do { p \<leftarrow> slice_to line maxLen; Some (p @ ''...'') }
                          else slice_to line (layout_Width (layout df)))
                    else Some line }))"

section \<open>Key input\<close>

datatype ArrowKey = ArrowNone | ArrowUp | ArrowDown | ArrowLeft | ArrowRight

text \<open>
  \<open>parseKeyInput\<close> returns the arrow key, the character (a \<open>rune\<close>, here its code
  point) and the error, \<open>None\<close> for \<open>nil\<close>.
\<close>

datatype key_error = EmptyInput | UnrecognizedKeySequence

definition parseKeyInput :: "string \<Rightarrow> ArrowKey \<times> int \<times> key_error option" where
  "parseKeyInput input =
     (if length input = 0 then (ArrowNone, 0, Some EmptyInput)
      else if length input = 1 then
        (if input ! 0 = CHR 0x0A \<or> input ! 0 = CHR 0x0D then (ArrowNone, 0x0A, None)
         else if input ! 0 = CHR 0x1B then (ArrowNone, 0x1B, None)
         else if input ! 0 = CHR 0x03 then (ArrowNone, 0x03, None)
         else (ArrowNone, of_char (input ! 0), None))
      else
        (let unrecognized = (ArrowNone, 0, Some UnrecognizedKeySequence)
         in if length input \<ge> 3 \<and> input ! 0 = CHR 0x1B \<and> input ! 1 = CHR ''[''
            then (if input ! 2 = CHR ''A'' then (ArrowUp, 0, None)
                  else if input ! 2 = CHR ''B'' then (ArrowDown, 0, None)
                  else if input ! 2 = CHR ''C'' then (ArrowRight, 0, None)
                  else if input ! 2 = CHR ''D'' then (ArrowLeft, 0, None)
                  else unrecognized)
            else unrecognized))"

section \<open>Display state\<close>

definition initializeDisplayState :: "system \<Rightarrow> DisplayState" where
  "initializeDisplayState sys =
     (let caps = detectTerminalCapabilities sys
      in \<lparr> currentLines = [], headerLine = '''', footerLine = '''',
           terminalWidth = Width caps, terminalHeight = Height caps,
           lastSelection = - 1, currentSelection = 0,
           initialized = True, contentChanged = True, selectionChanged = False \<rparr>)"

text \<open>The comparison loop of \<open>UpdateContent\<close>, entered at index \<open>i\<close> with the lines from
  \<open>i\<close> on: it stops with \<open>True\<close> at the first line that has no stored counterpart or
  differs from it.\<close>

fun lines_changed_from :: "string list \<Rightarrow> string list \<Rightarrow> nat \<Rightarrow> bool" where
  "lines_changed_from [] stored i = False"
| "lines_changed_from (line # rest) stored i =
     (if i \<ge> length stored \<or> line \<noteq> stored ! i then True
      else lines_changed_from rest stored (Suc i))"

definition UpdateContent :: "DisplayState \<Rightarrow> string list \<Rightarrow> int \<Rightarrow> DisplayState" where
  "UpdateContent ds lines selection =
     (if \<not> initialized ds then ds
      else
        (let contentChanged0 = (length lines \<noteq> length (currentLines ds));
             contentChanged1 = (if \<not> contentChanged0
                                then lines_changed_from lines (currentLines ds) 0
                                else contentChanged0);
             selectionChanged1 = (selection \<noteq> currentSelection ds \<and> \<not> contentChanged1)
         in ds\<lparr> currentLines := lines,
                lastSelection := currentSelection ds,
                currentSelection := selection,
                contentChanged := contentChanged1,
                selectionChanged := selectionChanged1 \<rparr>))"

definition ClearDisplay :: "DisplayState \<Rightarrow> DisplayState" where
  "ClearDisplay ds =
     (if \<not> initialized ds then ds
      else ds\<lparr> currentLines := [], headerLine := '''', footerLine := '''',
               lastSelection := - 1, currentSelection := 0,
               contentChanged := True, selectionChanged := False \<rparr>)"

section \<open>Standard streams and errors\<close>

text \<open>
  The errors the selection functions return, one constructor for each message of the
  source; a constructor with an argument wraps the error it was built from (\<open>%w\<close>):
  \<^item> \<open>NoEnvironmentsConfigured\<close>: no environments configured - use 'add' command to create one
  \<^item> \<open>NoEnvironmentsForHeadless\<close>: no environments available for headless mode
  \<^item> \<open>SelectionCancelled\<close>: selection cancelled
  \<^item> \<open>FailedToDisplayMenu\<close>: failed to display menu
  \<^item> \<open>FailedToDisplayOption\<close>: failed to display environment option
  \<^item> \<open>FailedToDisplayPrompt\<close>: failed to display prompt
  \<^item> \<open>FailedToReadInput\<close>: failed to read input
  \<^item> \<open>SelectionFailed\<close>: environment selection failed
  \<^item> \<open>NotANumber\<close>: invalid selection - must be a number
  \<^item> \<open>OutOfRange n\<close>: invalid selection - must be between 1 and \<open>n\<close>
  \<^item> \<open>OSError\<close>: an error of a read or a write, by its message; end of input is
    \<open>OSError ''EOF''\<close>, and \<open>NoProgress\<close> is the error of a buffered reader whose reads
    return neither data nor an error
  \<^item> \<open>AtoiSyntax\<close>, \<open>AtoiRange\<close>: the two errors of \<open>strconv.Atoi\<close>, with the input.
\<close>

datatype error =
    NoEnvironmentsConfigured
  | NoEnvironmentsForHeadless
  | SelectionCancelled
  | FailedToDisplayMenu error
  | FailedToDisplayOption error
  | FailedToDisplayPrompt error
  | FailedToReadInput error
  | SelectionFailed error
  | NotANumber error
  | OutOfRange int
  | OSError string
  | NoProgress
  | AtoiSyntax string
  | AtoiRange string

text \<open>
  Standard input is the list of what the coming reads find: data that is available
  (\<open>Data\<close>; an empty one is an end of input) or a read error (\<open>Fail\<close>).  After the last
  element every read is at the end of input.  Standard output and standard error are the
  bytes written so far.  The two package-level variables of ui.go, \<open>globalDisplayState\<close>
  and \<open>globalLineRenderer\<close>, are part of the state; the renderer's \<open>state\<close> pointer is
  the display state that was created with it, that is \<open>globalDisplayState\<close>.
\<close>

datatype read_result = Data string | Fail string

record TextPositioner =
  tp_width :: int

record LineRenderer =
  positioner :: TextPositioner
  useANSI :: bool

record world =
  os :: system
  stdin :: "read_result list"
  stdout :: string
  stderr :: string
  globalDisplayState :: "DisplayState option"
  globalLineRenderer :: "LineRenderer option"

text \<open>\<open>os.Stdin.Read\<close> into a buffer of \<open>n\<close> bytes.\<close>

definition stdin_Read :: "nat \<Rightarrow> world \<Rightarrow> (error + string) \<times> world" where
  "stdin_Read n w =
     (case stdin w of
        [] \<Rightarrow> (Inl (OSError ''EOF''), w)
      | Fail e # rest \<Rightarrow> (Inl (OSError e), w\<lparr> stdin := rest \<rparr>)
      | Data bs # rest \<Rightarrow>
          if bs = [] then (Inl (OSError ''EOF''), w\<lparr> stdin := rest \<rparr>)
          else if length bs \<le> n then (Inr bs, w\<lparr> stdin := rest \<rparr>)
          else (Inr (take n bs), w\<lparr> stdin := Data (drop n bs) # rest \<rparr>))"

fun pending :: "read_result \<Rightarrow> nat" where
  "pending (Data bs) = Suc (length bs)"
| "pending (Fail e) = 1"

definition stdin_size :: "world \<Rightarrow> nat" where
  "stdin_size w = sum_list (map pending (stdin w))"

text \<open>\<open>fmt.Print\<close> and \<open>fmt.Println\<close> to standard output, with the error they return;
  \<open>print\<close> is a call whose result the source ignores.\<close>

definition fmt_Print :: "string \<Rightarrow> world \<Rightarrow> error option \<times> world" where
  "fmt_Print s w =
     (case stdout_write_error (os w) of
        Some e \<Rightarrow> (Some (OSError e), w)
      | None \<Rightarrow> (None, w\<lparr> stdout := stdout w @ s \<rparr>))"

definition fmt_Println :: "string \<Rightarrow> world \<Rightarrow> error option \<times> world" where
  "fmt_Println s w = fmt_Print (s @ [CHR 0x0A]) w"

definition print :: "string \<Rightarrow> world \<Rightarrow> world" where
  "print s w = snd (fmt_Print s w)"

definition print_stderr :: "string \<Rightarrow> world \<Rightarrow> world" where
  "print_stderr s w = w\<lparr> stderr := stderr w @ s \<rparr>"

section \<open>Library functions of the numbered selection\<close>

text \<open>\<open>%d\<close> of \<open>fmt.Sprintf\<close>.\<close>

fun decimal :: "nat \<Rightarrow> string" where
  "decimal n = (if n < 10 then [''0123456789'' ! n]
                else decimal (n div 10) @ [''0123456789'' ! (n mod 10)])"

declare decimal.simps [simp del]

definition sprint_int :: "int \<Rightarrow> string" where
  "sprint_int n = (if n < 0 then CHR ''-'' # decimal (nat (- n)) else decimal (nat n))"

text \<open>
  \<open>strings.TrimSpace\<close> removes the leading and trailing white space of Unicode; on the
  bytes of the string these are the UTF-8 encodings below (U+0009 to U+000D, U+0020,
  U+0085, U+00A0, U+1680, U+2000 to U+200A, U+2028, U+2029, U+202F, U+205F, U+3000).
\<close>

definition white_space :: "string list" where
  "white_space =
     [[CHR 0x09], [CHR 0x0A], [CHR 0x0B], [CHR 0x0C], [CHR 0x0D], [CHR 0x20],
      [CHR 0xC2, CHR 0x85], [CHR 0xC2, CHR 0xA0], [CHR 0xE1, CHR 0x9A, CHR 0x80],
      [CHR 0xE2, CHR 0x80, CHR 0x80], [CHR 0xE2, CHR 0x80, CHR 0x81],
      [CHR 0xE2, CHR 0x80, CHR 0x82], [CHR 0xE2, CHR 0x80, CHR 0x83],
      [CHR 0xE2, CHR 0x80, CHR 0x84], [CHR 0xE2, CHR 0x80, CHR 0x85],
      [CHR 0xE2, CHR 0x80, CHR 0x86], [CHR 0xE2, CHR 0x80, CHR 0x87],
      [CHR 0xE2, CHR 0x80, CHR 0x88], [CHR 0xE2, CHR 0x80, CHR 0x89],
      [CHR 0xE2, CHR 0x80, CHR 0x8A], [CHR 0xE2, CHR 0x80, CHR 0xA8],
      [CHR 0xE2, CHR 0x80, CHR 0xA9], [CHR 0xE2, CHR 0x80, CHR 0xAF],
      [CHR 0xE2, CHR 0x81, CHR 0x9F], [CHR 0xE3, CHR 0x80, CHR 0x80]]"

definition leading_space :: "string \<Rightarrow> nat" where
  "leading_space s =
     (case find (\<lambda>sp. strings_HasPrefix s sp) white_space of Some sp \<Rightarrow> length sp | None \<Rightarrow> 0)"

function trim_left :: "string \<Rightarrow> string" where
  "trim_left s = (if 0 < leading_space s \<and> leading_space s \<le> length s
                  then trim_left (drop (leading_space s) s) else s)"
  by pat_completeness auto
termination
  by (relation "measure length") auto

declare trim_left.simps [simp del]

definition strings_HasSuffix :: "string \<Rightarrow> string \<Rightarrow> bool" where
  "strings_HasSuffix s p = (length p \<le> length s \<and> drop (length s - length p) s = p)"

definition trailing_space :: "string \<Rightarrow> nat" where
  "trailing_space s =
     (case find (\<lambda>sp. strings_HasSuffix s sp) white_space of Some sp \<Rightarrow> length sp | None \<Rightarrow> 0)"

function trim_right :: "string \<Rightarrow> string" where
  "trim_right s = (if 0 < trailing_space s \<and> trailing_space s \<le> length s
                   then trim_right (take (length s - trailing_space s) s) else s)"
  by pat_completeness auto
termination
  by (relation "measure length") auto

declare trim_right.simps [simp del]

definition strings_TrimSpace :: "string \<Rightarrow> string" where
  "strings_TrimSpace s = trim_right (trim_left s)"

text \<open>
  \<open>strconv.Atoi\<close>: an optional sign and at least one decimal digit, nothing else; the
  value has to fit the 64 bits of an \<open>int\<close>.
\<close>

definition is_digit :: "char \<Rightarrow> bool" where
  "is_digit c = (48 \<le> (of_char c :: nat) \<and> (of_char c :: nat) \<le> 57)"

fun digits_value :: "string \<Rightarrow> nat \<Rightarrow> nat" where
  "digits_value [] acc = acc"
| "digits_value (c # cs) acc = digits_value cs (acc * 10 + (of_char c - 48))"

definition strconv_Atoi :: "string \<Rightarrow> error + int" where
  "strconv_Atoi s =
     (let ds = (case s of
                  [] \<Rightarrow> s
                | c # r \<Rightarrow> if c = CHR ''-'' \<or> c = CHR ''+'' then r else s);
          neg = (s \<noteq> [] \<and> hd s = CHR ''-'')
      in if ds = [] \<or> \<not> list_all is_digit ds then Inl (AtoiSyntax s)
         else
           (let v = int (digits_value ds 0);
                n = (if neg then - v else v)
            in if n < - (2 ^ 63) \<or> 2 ^ 63 - 1 < n then Inl (AtoiRange s) else Inr n))"

text \<open>A buffered reader's \<open>ReadString('\n')\<close> on standard input: it reads until a line feed
  has arrived and returns the text up to it; what it has read beyond is lost with the
  reader.  \<open>k\<close> is the number of bytes in its buffer of 4096 bytes.\<close>

function bufio_ReadString :: "string \<Rightarrow> nat \<Rightarrow> world \<Rightarrow> (error + string) \<times> world" where
  "bufio_ReadString acc k w =
     (case stdin_Read (4096 - k) w of
        (Inl e, w1) \<Rightarrow> (Inl e, w1)
      | (Inr bs, w1) \<Rightarrow>
          if bs = [] then (Inl NoProgress, w1)
          else if CHR 0x0A \<in> set bs
          then (Inr (acc @ takeWhile (\<lambda>c. c \<noteq> CHR 0x0A) bs @ [CHR 0x0A]), w1)
          else bufio_ReadString (acc @ bs)
                 (if k + length bs \<ge> 4096 then 0 else k + length bs) w1)"
  by pat_completeness auto

termination
  by (relation "measure (\<lambda>(acc, k, w). stdin_size w)")
    (auto simp: stdin_Read_def stdin_size_def split: list.splits read_result.splits if_splits)

declare bufio_ReadString.simps [simp del]

definition regularInput :: "string \<Rightarrow> world \<Rightarrow> (error + string) \<times> world" where
  "regularInput prompt w =
     (case fmt_Print prompt w of
        (Some e, w1) \<Rightarrow> (Inl (FailedToDisplayPrompt e), w1)
      | (None, w1) \<Rightarrow>
          (case bufio_ReadString [] 0 w1 of
             (Inl e, w2) \<Rightarrow> (Inl (FailedToReadInput e), w2)
           | (Inr input, w2) \<Rightarrow> (Inr (strings_TrimSpace input), w2)))"

section \<open>Rendering\<close>

definition MoveToStartOfLine :: "TextPositioner \<Rightarrow> string" where
  "MoveToStartOfLine tp = [CHR 0x0D]"

definition ClearToEndOfLine :: "TextPositioner \<Rightarrow> string option" where
  "ClearToEndOfLine tp = strings_Repeat '' '' (tp_width tp)"

definition ClearLine :: "TextPositioner \<Rightarrow> string option" where
  "ClearLine tp =
     do { c \<leftarrow> ClearToEndOfLine tp;
          Some (MoveToStartOfLine tp @ c @ MoveToStartOfLine tp) }"

definition OverwriteLine :: "TextPositioner \<Rightarrow> string \<Rightarrow> string option" where
  "OverwriteLine tp content =
     do { content1 \<leftarrow> (if go_len content > tp_width tp
                        then do { p \<leftarrow> slice_to content (tp_width tp - 3); Some (p @ ''...'') }
                        else Some content);
          padding \<leftarrow> strings_Repeat '' '' (tp_width tp - go_len content1);
          Some (MoveToStartOfLine tp @ content1 @ padding @ MoveToStartOfLine tp) }"

text \<open>The loop of \<open>clearScreen\<close>; the argument counts the iterations that remain, so
  \<open>i < linesToClear - 1\<close> says that at least one remains after the present one.\<close>

fun clear_lines :: "TextPositioner \<Rightarrow> nat \<Rightarrow> world \<Rightarrow> world option" where
  "clear_lines tp 0 w = Some w"
| "clear_lines tp (Suc k) w =
     do { line \<leftarrow> ClearLine tp;
          let w1 = print line w;
          let w2 = (if 0 < k then print [CHR 0x0A] w1 else w1);
          clear_lines tp k w2 }"

definition clearScreen :: "world \<Rightarrow> world option" where
  "clearScreen w =
     (let caps = detectTerminalCapabilities (os w);
          tp = \<lparr> tp_width = Width caps \<rparr>;
          linesToClear = (if Height caps > 0 then Height caps else 25)
      in do { w1 \<leftarrow> clear_lines tp (nat linesToClear) w;
              returns \<leftarrow> strings_Repeat [CHR 0x0D] linesToClear;
              Some (print returns w1) })"

text \<open>The loop of \<open>renderFullContent\<close>; \<open>first\<close> says that the index is 0.\<close>

fun print_lines :: "TextPositioner \<Rightarrow> string list \<Rightarrow> bool \<Rightarrow> world \<Rightarrow> world option" where
  "print_lines tp [] first w = Some w"
| "print_lines tp (line # rest) first w =
     (if first then
        do { out \<leftarrow> OverwriteLine tp line;
             print_lines tp rest False (print out w) }
      else
        (let w1 = print [CHR 0x0A] w
         in do { out \<leftarrow> OverwriteLine tp line;
                 print_lines tp rest False (print out w1) }))"

text \<open>A method of the renderer reads the renderer and its display state from the two
  global variables; a \<open>nil\<close> one is a panic.\<close>

definition renderFullContent :: "world \<Rightarrow> world option" where
  "renderFullContent w =
     do { w1 \<leftarrow> clearScreen w;
          lr \<leftarrow> globalLineRenderer w1;
          st \<leftarrow> globalDisplayState w1;
          print_lines (positioner lr) (currentLines st) True w1 }"

definition renderSelectionChange :: "Environment list \<Rightarrow> DisplayFormatter \<Rightarrow> world \<Rightarrow> world option" where
  "renderSelectionChange environments formatter w = renderFullContent w"

text \<open>The selection marker of a terminal with ANSI support is the arrow U+25BA and a
  space.\<close>

definition arrow_prefix :: string where
  "arrow_prefix = [CHR 0xE2, CHR 0x96, CHR 0xBA, CHR 0x20]"

text \<open>The loop of \<open>RenderMenu\<close> over the environments, from index \<open>i\<close>.\<close>

fun menu_lines ::
  "DisplayFormatter \<Rightarrow> bool \<Rightarrow> int \<Rightarrow> int \<Rightarrow> Environment list \<Rightarrow> string list option" where
  "menu_lines formatter ansi selectedIndex i [] = Some []"
| "menu_lines formatter ansi selectedIndex i (env # rest) =
     (let prefix = (if i = selectedIndex then (if ansi then arrow_prefix else ''* '') else ''  '')
      in do { line \<leftarrow> formatSingleLine formatter prefix env;
              lines \<leftarrow> menu_lines formatter ansi selectedIndex (i + 1) rest;
              Some (line # lines) })"

definition RenderMenu :: "Environment list \<Rightarrow> int \<Rightarrow> string \<Rightarrow> world \<Rightarrow> world option" where
  "RenderMenu environments selectedIndex header w =
     do { lr \<leftarrow> globalLineRenderer w;
          st \<leftarrow> globalDisplayState w;
          if \<not> initialized st then Some w
          else
            (let lay = detectTerminalLayout (os w);
                 formatter = newDisplayFormatter lay;
                 newLines0 = (if header \<noteq> '''' then [header] else [])
             in do { lines \<leftarrow> menu_lines formatter (useANSI lr) selectedIndex 0 environments;
                     let st1 = UpdateContent st (newLines0 @ lines) selectedIndex;
                     let w1 = w\<lparr> globalDisplayState := Some st1 \<rparr>;
                     if contentChanged st1 then renderFullContent w1
                     else if selectionChanged st1
                     then renderSelectionChange environments formatter w1
                     else Some w1 }) }"

definition renderMenuStatefully ::
  "Environment list \<Rightarrow> int \<Rightarrow> string \<Rightarrow> bool \<Rightarrow> world \<Rightarrow> world option" where
  "renderMenuStatefully environments selectedIndex header ansi w =
     do { w1 \<leftarrow> (if globalDisplayState w = None
                  then (let st = initializeDisplayState (os w);
                            lr = \<lparr> positioner = \<lparr> tp_width = terminalWidth st \<rparr>,
                                   useANSI = ansi \<rparr>
                        in clearScreen (w\<lparr> globalDisplayState := Some st,
                                            globalLineRenderer := Some lr \<rparr>))
                  else Some w);
          let caps = detectTerminalCapabilities (os w1);
          st \<leftarrow> globalDisplayState w1;
          lr \<leftarrow> globalLineRenderer w1;
          RenderMenu environments selectedIndex header
            (w1\<lparr> globalDisplayState :=
                    Some (st\<lparr> terminalWidth := Width caps, terminalHeight := Height caps \<rparr>),
                  globalLineRenderer :=
                    Some (lr\<lparr> positioner := \<lparr> tp_width = Width caps \<rparr> \<rparr>) \<rparr>) }"

text \<open>\<open>cleanupDisplayState\<close> clears the display state and then drops it together with the
  renderer.\<close>

definition cleanupDisplayState :: "world \<Rightarrow> world" where
  "cleanupDisplayState w =
     (case globalDisplayState w of
        Some st \<Rightarrow> w\<lparr> globalDisplayState := None, globalLineRenderer := None \<rparr>
      | None \<Rightarrow> w)"

text \<open>The header of the first menu has the arrows U+2191 and U+2193.\<close>

definition displayEnvironmentMenu :: "Environment list \<Rightarrow> int \<Rightarrow> world \<Rightarrow> world option" where
  "displayEnvironmentMenu environments selectedIndex w =
     renderMenuStatefully environments selectedIndex
       (''Select environment (use '' @ [CHR 0xE2, CHR 0x86, CHR 0x91, CHR 0xE2, CHR 0x86, CHR 0x93]
          @ '' arrows, Enter to confirm, Esc to cancel):'') True w"

definition displayBasicEnvironmentMenu :: "Environment list \<Rightarrow> int \<Rightarrow> world \<Rightarrow> world option" where
  "displayBasicEnvironmentMenu environments selectedIndex w =
     renderMenuStatefully environments selectedIndex
       ''Select environment (use arrows, Enter to confirm, Esc to cancel):'' False w"

section \<open>Raw-mode guard\<close>

text \<open>\<open>restore\<close> returns the error of \<open>term.Restore\<close> (its message) and the updated
  handle; \<open>ensureRestore\<close> returns nothing to its caller.\<close>

definition restore :: "terminalState \<Rightarrow> system \<Rightarrow> string option \<times> terminalState" where
  "restore ts sys =
     (if restored ts \<or> oldState ts = None then (None, ts)
      else (restore_error sys, ts\<lparr> restored := True \<rparr>))"

definition ensureRestore :: "terminalState \<Rightarrow> world \<Rightarrow> terminalState \<times> world" where
  "ensureRestore ts w =
     (case restore ts (os w) of
        (Some err, ts1) \<Rightarrow>
          (ts1, print_stderr (''Warning: failed to restore terminal: '' @ err @ [CHR 0x0A]) w)
      | (None, ts1) \<Rightarrow> (ts1, w))"

section \<open>Selection\<close>

text \<open>\<open>a % b\<close> (the remainder has the sign of \<open>a\<close>; a zero divisor panics) and
  \<open>xs[i]\<close>.\<close>

definition go_rem :: "int \<Rightarrow> int \<Rightarrow> int option" where
  "go_rem a b = (if b = 0 then None else Some (a smod b))"

definition go_index :: "'a list \<Rightarrow> int \<Rightarrow> 'a option" where
  "go_index xs i = (if 0 \<le> i \<and> i < go_len xs then Some (xs ! nat i) else None)"

definition isHeadlessMode :: "system \<Rightarrow> bool" where
  "isHeadlessMode sys =
     (case stdout_stat sys of
        Some charDevice \<Rightarrow> \<not> charDevice
      | None \<Rightarrow>
          list_ex (\<lambda>envVar. getenv sys envVar \<noteq> '''')
            [''CI'', ''CONTINUOUS_INTEGRATION'', ''GITHUB_ACTIONS'', ''GITLAB_CI'', ''JENKINS_URL''])"

text \<open>The loop of \<open>selectEnvironmentOriginal\<close> that prints the numbered lines, from index
  \<open>i\<close>; it returns the error of the first line that cannot be written.\<close>

fun print_numbered ::
  "DisplayFormatter \<Rightarrow> int \<Rightarrow> Environment list \<Rightarrow> world \<Rightarrow> (error option \<times> world) option" where
  "print_numbered formatter i [] w = Some (None, w)"
| "print_numbered formatter i (env # rest) w =
     (let prefix = sprint_int (i + 1) @ ''. ''
      in do { line \<leftarrow> formatSingleLine formatter prefix env;
              (case fmt_Println line w of
                 (Some e, w1) \<Rightarrow> Some (Some (FailedToDisplayOption e), w1)
               | (None, w1) \<Rightarrow> print_numbered formatter (i + 1) rest w1) })"

definition selectEnvironmentOriginal ::
  "Config \<Rightarrow> world \<Rightarrow> ((error + Environment) \<times> world) option" where
  "selectEnvironmentOriginal config w =
     (if go_len (Environments config) = 0 then Some (Inl NoEnvironmentsConfigured, w)
      else if go_len (Environments config) = 1 then
        do { env \<leftarrow> go_index (Environments config) 0; Some (Inr env, w) }
      else
        (case fmt_Println ''Select environment:'' w of
           (Some e, w1) \<Rightarrow> Some (Inl (FailedToDisplayMenu e), w1)
         | (None, w1) \<Rightarrow>
             (let lay = detectTerminalLayout (os w1);
                  formatter = newDisplayFormatter lay
              in do { r \<leftarrow> print_numbered formatter 0 (Environments config) w1;
                      (case r of
                         (Some e, w2) \<Rightarrow> Some (Inl e, w2)
                       | (None, w2) \<Rightarrow>
                           (case regularInput
                                   (''Enter number (1-'' @ sprint_int (go_len (Environments config))
                                      @ ''): '') w2 of
                              (Inl e, w3) \<Rightarrow> Some (Inl (SelectionFailed e), w3)
                            | (Inr input, w3) \<Rightarrow>
                                (case strconv_Atoi input of
                                   Inl e \<Rightarrow> Some (Inl (NotANumber e), w3)
                                 | Inr choice \<Rightarrow>
                                     if choice < 1 \<or> choice > go_len (Environments config)
                                     then Some (Inl (OutOfRange (go_len (Environments config))), w3)
                                     else do { env \<leftarrow> go_index (Environments config) (choice - 1);
                                               Some (Inr env, w3) }))) })))"

definition fallbackToNumberedSelection ::
  "Config \<Rightarrow> world \<Rightarrow> ((error + Environment) \<times> world) option" where
  "fallbackToNumberedSelection config w =
     selectEnvironmentOriginal config
       (snd (fmt_Println ''Arrow key navigation not supported, using numbered selection:'' w))"

text \<open>What one turn of the loop of the two interactive tiers does with a parsed key:
  it goes on with a selected index, or it returns.\<close>

datatype loop_step = Continue int | Return "error + Environment"

definition handle_key :: "Environment list \<Rightarrow> int \<Rightarrow> ArrowKey \<Rightarrow> int \<Rightarrow> loop_step option" where
  "handle_key environments selectedIndex arrow char =
     (case arrow of
        ArrowUp \<Rightarrow>
          do { i \<leftarrow> go_rem (selectedIndex - 1 + go_len environments) (go_len environments);
               Some (Continue i) }
      | ArrowDown \<Rightarrow>
          do { i \<leftarrow> go_rem (selectedIndex + 1) (go_len environments);
               Some (Continue i) }
      | ArrowNone \<Rightarrow>
          if char = 0x0A \<or> char = 0x0D then
            do { env \<leftarrow> go_index environments selectedIndex; Some (Return (Inr env)) }
          else if char = 0x1B \<or> char = 0x03 then Some (Return (Inl SelectionCancelled))
          else Some (Continue selectedIndex)
      | ArrowLeft \<Rightarrow> Some (Continue selectedIndex)
      | ArrowRight \<Rightarrow> Some (Continue selectedIndex))"

text \<open>Rendering and writing leave standard input as it is; a read of at least one byte
  that returns data shortens what is pending.  The loops below terminate for that reason.\<close>

lemma stdin_fmt_Print [simp]: "stdin (snd (fmt_Print s w)) = stdin w"
  by (simp add: fmt_Print_def split: option.splits)

lemma stdin_print [simp]: "stdin (print s w) = stdin w"
  by (simp add: print_def)

lemma stdin_clear_lines: "clear_lines tp k w = Some w1 \<Longrightarrow> stdin w1 = stdin w"
  by (induction k arbitrary: w) (auto simp: Let_def split: bind_splits)

lemma stdin_clearScreen: "clearScreen w = Some w1 \<Longrightarrow> stdin w1 = stdin w"
  by (auto simp: clearScreen_def Let_def split: bind_splits dest: stdin_clear_lines)

lemma stdin_print_lines: "print_lines tp lines first w = Some w1 \<Longrightarrow> stdin w1 = stdin w"
  by (induction lines arbitrary: w first) (auto simp: Let_def split: bind_splits if_splits)

lemma stdin_renderFullContent: "renderFullContent w = Some w1 \<Longrightarrow> stdin w1 = stdin w"
  by (auto simp: renderFullContent_def split: bind_splits
      dest!: stdin_clearScreen stdin_print_lines)

lemma stdin_RenderMenu: "RenderMenu environments selectedIndex header w = Some w1 \<Longrightarrow> stdin w1 = stdin w"
  by (auto simp: RenderMenu_def renderSelectionChange_def Let_def
      split: bind_splits if_splits dest!: stdin_renderFullContent)

lemma stdin_renderMenuStatefully:
  "renderMenuStatefully environments selectedIndex header ansi w = Some w1 \<Longrightarrow> stdin w1 = stdin w"
  by (auto simp: renderMenuStatefully_def Let_def
      split: bind_splits if_splits dest!: stdin_RenderMenu stdin_clearScreen)

lemma stdin_Read_shortens:
  "stdin_Read n w = (Inr bs, w1) \<Longrightarrow> 0 < n \<Longrightarrow> stdin_size w1 < stdin_size w"
  by (auto simp: stdin_Read_def stdin_size_def split: list.splits read_result.splits if_splits)

text \<open>
  The loop of \<open>fullInteractiveSelection\<close> and of \<open>basicInteractiveSelection\<close>: the two
  differ in the menu they display (\<open>ansi\<close>) and in nothing else.  A read error leaves the
  loop for the numbered selection; an input that \<open>parseKeyInput\<close> rejects is skipped.
\<close>

function selection_loop ::
  "bool \<Rightarrow> Config \<Rightarrow> int \<Rightarrow> world \<Rightarrow> ((error + Environment) \<times> world) option" where
  "selection_loop ansi config selectedIndex w =
     (case (if ansi then displayEnvironmentMenu (Environments config) selectedIndex w
            else displayBasicEnvironmentMenu (Environments config) selectedIndex w) of
        None \<Rightarrow> None
      | Some w1 \<Rightarrow>
          (case stdin_Read 10 w1 of
             (Inl err, w2) \<Rightarrow> fallbackToNumberedSelection config w2
           | (Inr buffer, w2) \<Rightarrow>
               (case parseKeyInput buffer of
                  (arrow, char, Some err) \<Rightarrow> selection_loop ansi config selectedIndex w2
                | (arrow, char, None) \<Rightarrow>
                    (case handle_key (Environments config) selectedIndex arrow char of
                       None \<Rightarrow> None
                     | Some (Continue i) \<Rightarrow> selection_loop ansi config i w2
                     | Some (Return r) \<Rightarrow> Some (r, w2)))))"
  by pat_completeness auto
termination
proof (relation "measure (\<lambda>(ansi, config, selectedIndex, w). stdin_size w)")
  show "wf (measure (\<lambda>(ansi, config, selectedIndex, w). stdin_size w))"
    by simp
next
  fix ansi config selectedIndex w w1 x w2 buffer
  assume d: "(if ansi then displayEnvironmentMenu (Environments config) selectedIndex w
              else displayBasicEnvironmentMenu (Environments config) selectedIndex w) = Some w1"
    and r: "(x, w2) = stdin_Read 10 w1" and x: "x = Inr buffer"
  from d have "stdin w1 = stdin w"
    by (auto simp: displayEnvironmentMenu_def displayBasicEnvironmentMenu_def
        split: if_splits dest: stdin_renderMenuStatefully)
  then have "stdin_size w1 = stdin_size w"
    by (simp add: stdin_size_def)
  moreover from r x have "stdin_size w2 < stdin_size w1"
    using stdin_Read_shortens [of 10 w1 buffer w2] by simp
  ultimately have lt: "stdin_size w2 < stdin_size w"
    by simp
  {
    fix i
    show "((ansi, config, selectedIndex, w2), (ansi, config, selectedIndex, w))
          \<in> measure (\<lambda>(ansi, config, selectedIndex, w). stdin_size w)"
      using lt by simp
    show "((ansi, config, i, w2), (ansi, config, selectedIndex, w))
          \<in> measure (\<lambda>(ansi, config, selectedIndex, w). stdin_size w)"
      using lt by simp
  }
qed

declare selection_loop.simps [simp del]

definition basicInteractiveSelection ::
  "Config \<Rightarrow> terminalCapabilities \<Rightarrow> world \<Rightarrow> ((error + Environment) \<times> world) option" where
  "basicInteractiveSelection config caps w =
     (let termState = \<lparr> fd = 0, oldState = None, restored = False \<rparr>
      in if \<not> make_raw_ok (os w) then fallbackToNumberedSelection config w
         else
           (let termState1 = termState\<lparr> oldState := Some SavedState \<rparr>
            in case selection_loop False config 0 w of
                 None \<Rightarrow> None
               | Some (r, w1) \<Rightarrow> Some (r, snd (ensureRestore termState1 (cleanupDisplayState w1)))))"

definition fullInteractiveSelection ::
  "Config \<Rightarrow> terminalCapabilities \<Rightarrow> world \<Rightarrow> ((error + Environment) \<times> world) option" where
  "fullInteractiveSelection config caps w =
     (let termState = \<lparr> fd = 0, oldState = None, restored = False \<rparr>
      in if \<not> make_raw_ok (os w) then basicInteractiveSelection config caps w
         else
           (let termState1 = termState\<lparr> oldState := Some SavedState \<rparr>
            in case selection_loop True config 0 w of
                 None \<Rightarrow> None
               | Some (r, w1) \<Rightarrow> Some (r, snd (ensureRestore termState1 (cleanupDisplayState w1)))))"

definition selectEnvironmentWithArrows ::
  "Config \<Rightarrow> world \<Rightarrow> ((error + Environment) \<times> world) option" where
  "selectEnvironmentWithArrows config w =
     (if go_len (Environments config) = 0 then Some (Inl NoEnvironmentsConfigured, w)
      else if go_len (Environments config) = 1 then
        do { env \<leftarrow> go_index (Environments config) 0; Some (Inr env, w) }
      else
        (let caps = detectTerminalCapabilities (os w)
         in if \<not> IsTerminal caps then
              (if isHeadlessMode (os w) then
                 (if go_len (Environments config) > 0 then
                    do { env \<leftarrow> go_index (Environments config) 0;
                         Some (Inr env,
                               print (''Headless mode: using first environment '' @ [CHR 0x27]
                                        @ Name env @ [CHR 0x27, CHR 0x0A]) w) }
                  else Some (Inl NoEnvironmentsForHeadless, w))
               else fallbackToNumberedSelection config w)
            else if SupportsRaw caps \<and> SupportsANSI caps \<and> SupportsCursor caps
            then fullInteractiveSelection config caps w
            else if SupportsRaw caps then basicInteractiveSelection config caps w
            else fallbackToNumberedSelection config w))"

definition selectEnvironment :: "Config \<Rightarrow> world \<Rightarrow> ((error + Environment) \<times> world) option" where
  "selectEnvironment config w = selectEnvironmentWithArrows config w"

section \<open>Example systems\<close>

text \<open>An interactive terminal of the given size whose \<open>TERM\<close> is \<open>xterm-256color\<close>.\<close>

definition tty_system :: "int \<Rightarrow> int \<Rightarrow> system" where
  "tty_system width height =
     \<lparr> stdin_is_terminal = True,
       getenv = (\<lambda>v. if v = ''TERM'' then ''xterm-256color'' else ''''),
       make_raw_ok = True, restore_error = None,
       get_size = Some (width, height), stdout_stat = Some True,
       stdout_write_error = None \<rparr>"

text \<open>A profile with a ten-character name and no model.\<close>

definition env_production :: Environment where
  "env_production =
     \<lparr> Name = ''production'', URL = ''https://api.openai.com/v1'', APIKey = ''sk-test'',
       Model = '''', EnvVars = [] \<rparr>"

text \<open>A world in which nothing has been written and no menu has been rendered.\<close>

definition initial_world :: "system \<Rightarrow> read_result list \<Rightarrow> world" where
  "initial_world sys input =
     \<lparr> os = sys, stdin = input, stdout = '''', stderr = '''',
       globalDisplayState = None, globalLineRenderer = None \<rparr>"

definition env_staging :: Environment where
  "env_staging =
     \<lparr> Name = ''staging'', URL = ''https://staging.example.com/v1'', APIKey = ''sk-test'',
       Model = ''gpt-5'', EnvVars = [] \<rparr>"

definition two_profiles :: Config where
  "two_profiles = \<lparr> Environments = [env_production, env_staging] \<rparr>"

text \<open>Standard input is a pipe, standard output is a terminal, and \<open>CI\<close> is set.\<close>

definition ci_terminal_system :: system where
  "ci_terminal_system =
     \<lparr> stdin_is_terminal = False,
       getenv = (\<lambda>v. if v = ''CI'' then ''true'' else ''''),
       make_raw_ok = False, restore_error = None,
       get_size = None, stdout_stat = Some True, stdout_write_error = None \<rparr>"

text \<open>One system for each tier: \<open>tty_system\<close> supports raw mode and ANSI; the second has
  a dumb terminal; the third cannot enter raw mode; the fourth has neither standard input
  nor standard output on a terminal.\<close>

definition tier2_system :: system where
  "tier2_system = (tty_system 80 24)\<lparr> getenv := (\<lambda>v. if v = ''TERM'' then ''dumb'' else '''') \<rparr>"

definition tier3_system :: system where
  "tier3_system = (tty_system 80 24)\<lparr> make_raw_ok := False \<rparr>"

definition tier4_system :: system where
  "tier4_system = (tty_system 80 24)\<lparr> stdin_is_terminal := False, stdout_stat := Some False \<rparr>"

definition no_profiles :: Config where
  "no_profiles = \<lparr> Environments = [] \<rparr>"

definition one_profile :: Config where
  "one_profile = \<lparr> Environments = [env_staging] \<rparr>"

text \<open>A handle that holds a saved terminal state, and a terminal that cannot be restored.\<close>

definition acquired_handle :: terminalState where
  "acquired_handle = \<lparr> fd = 0, oldState = Some SavedState, restored = False \<rparr>"

definition unrestorable_system :: system where
  "unrestorable_system = (tty_system 80 24)\<lparr> restore_error := Some ''input/output error'' \<rparr>"

section \<open>Predicates of the proofs\<close>

text \<open>Two worlds that differ at most in what has been written to standard output; and a
  world in which a display state does not exist without its renderer.\<close>

definition stdout_only :: "world \<Rightarrow> world \<Rightarrow> bool" where
  "stdout_only w w1 = (\<exists>out. w1 = w\<lparr> stdout := out \<rparr>)"

definition globals_consistent :: "world \<Rightarrow> bool" where
  "globals_consistent w = (globalDisplayState w \<noteq> None \<longrightarrow> globalLineRenderer w \<noteq> None)"

text \<open>A full terminal on which the user presses the up arrow and then Enter; and the same
  world once the first menu has been displayed.\<close>

definition up_enter_world :: world where
  "up_enter_world =
     initial_world (tty_system 80 24) [Data [CHR 0x1B, CHR ''['', CHR ''A''], Data [CHR 0x0D]]"

definition up_enter_world_shown :: world where
  "up_enter_world_shown = the (displayEnvironmentMenu (Environments two_profiles) 0 up_enter_world)"

section \<open>Evaluation lemmas\<close>

lemma detectTerminalCapabilities_tty [simp]:
  "detectTerminalCapabilities (tty_system width height) =
     \<lparr> IsTerminal = True, SupportsRaw = True, SupportsANSI = True, SupportsCursor = True,
       Width = width, Height = height \<rparr>"
  by (simp add: detectTerminalCapabilities_def tty_system_def strings_HasPrefix_def)

lemma int_of_float64_mul_72:
  "int_of_float64_mul 72 f64_0_40 = 28"
  "int_of_float64_mul 72 f64_0_45 = 32"
  "int_of_float64_mul 72 f64_0_15 = 10"
  by (simp_all add: int_of_float64_mul_def f64_0_40_def f64_0_45_def f64_0_15_def
        round_to_f64_def f64_truncate_def excess_bits.simps)

lemma int_of_float64_mul_32:
  "int_of_float64_mul 32 f64_0_15 = 4"
  by (simp_all add: int_of_float64_mul_def f64_0_40_def f64_0_45_def f64_0_15_def
        round_to_f64_def f64_truncate_def excess_bits.simps)

section \<open>The float64 products are the floored percentages\<close>

text \<open>
  \<open>excess_bits m\<close> is the number of low bits that rounding drops; rounding moves a value by
  at most half a unit of the last kept bit.  For a width below \<open>2 ^ 31\<close> this never carries
  the product with 0.40, 0.45 or 0.15 across an integer, so that \<open>int(float64(n) * 0.40)\<close> is
  \<open>n * 40 div 100\<close>, and likewise for the other two.
\<close>

lemma excess_bits_le:
  "0 \<le> m \<Longrightarrow> m < 2 ^ 53 * 2 ^ j \<Longrightarrow> excess_bits m \<le> j"
proof (induction j arbitrary: m)
  case 0
  then show ?case by (simp add: excess_bits.simps)
next
  case (Suc j)
  show ?case
  proof (cases "m < 2 ^ 53")
    case True
    then show ?thesis by (simp add: excess_bits.simps)
  next
    case False
    from Suc.prems have "m < 2 * (2 ^ 53 * 2 ^ j)" by simp
    then have "m div 2 < 2 ^ 53 * 2 ^ j" by linarith
    moreover from Suc.prems have "0 \<le> m div 2" by simp
    ultimately have "excess_bits (m div 2) \<le> j" by (rule Suc.IH [rotated])
    with False show ?thesis by (subst excess_bits.simps) simp
  qed
qed

lemma excess_bits_upper:
  "0 \<le> m \<Longrightarrow> m < 2 ^ 53 * 2 ^ excess_bits m"
proof (induction m rule: excess_bits.induct)
  case (1 m)
  show ?case
  proof (cases "m < 2 ^ 53")
    case True
    then show ?thesis by (simp add: excess_bits.simps)
  next
    case False
    with 1 have "m div 2 < 2 ^ 53 * 2 ^ excess_bits (m div 2)" by simp
    then have "m < 2 * (2 ^ 53 * 2 ^ excess_bits (m div 2))" by linarith
    with False show ?thesis by (subst excess_bits.simps) simp
  qed
qed

lemma round_to_f64_props:
  assumes "0 \<le> m" and "round_to_f64 (m, e) = (q, e')"
  shows "e' = e + int (excess_bits m)"
    and "2 * (q * 2 ^ excess_bits m) \<le> 2 * m + 2 ^ excess_bits m"
    and "2 * m \<le> 2 * (q * 2 ^ excess_bits m) + 2 ^ excess_bits m"
proof -
  define s where "s = excess_bits m"
  define X :: int where "X = 2 ^ s"
  show "e' = e + int (excess_bits m)"
    using assms(2) by (auto simp: round_to_f64_def Let_def split: if_splits)
  have goal: "2 * (q * X) \<le> 2 * m + X \<and> 2 * m \<le> 2 * (q * X) + X"
  proof (cases "s = 0")
    case True
    with assms(2) have "q = m" by (simp add: round_to_f64_def s_def)
    with True show ?thesis by (simp add: X_def)
  next
    case False
    define h :: int where "h = 2 ^ (s - 1)"
    have X: "X = 2 * h" using False by (simp add: X_def h_def power_eq_if)
    have hpos: "0 < h" by (simp add: h_def)
    define q0 where "q0 = m div X"
    define r where "r = m mod X"
    have m: "m = q0 * X + r" by (simp add: q0_def r_def)
    have r: "0 \<le> r" "r < X" using hpos X by (simp_all add: r_def)
    have h': "2 ^ (s - Suc 0) = h" by (simp add: h_def)
    have q: "q = (if h < r \<or> (r = h \<and> odd q0) then q0 + 1 else q0)"
      using assms(2) False
      by (auto simp: round_to_f64_def Let_def s_def [symmetric] X_def [symmetric] h'
          q0_def r_def split: if_splits)
    show ?thesis
    proof (cases "h < r \<or> (r = h \<and> odd q0)")
      case True
      then have "q * X = q0 * X + X" by (simp add: q algebra_simps)
      with m r True X show ?thesis by auto
    next
      case False
      then have "q * X = q0 * X" "r \<le> h" by (auto simp: q)
      with m r X show ?thesis by auto
    qed
  qed
  then show "2 * (q * 2 ^ excess_bits m) \<le> 2 * m + 2 ^ excess_bits m"
    and "2 * m \<le> 2 * (q * 2 ^ excess_bits m) + 2 ^ excess_bits m"
    by (simp_all add: X_def s_def)
qed


lemma div_sandwich:
  fixes q Y A :: int
  assumes "0 < Y" and "A * Y \<le> q" and "q < (A + 1) * Y"
  shows "q div Y = A"
proof -
  have "q = Y * A + (q - A * Y)" by (simp add: algebra_simps)
  moreover have "0 \<le> q - A * Y" using assms(2) by simp
  moreover have "q - A * Y < Y" using assms(3) by (simp add: algebra_simps)
  ultimately show ?thesis by (rule int_div_pos_eq)
qed

lemma int_of_float64_mul_floor:
  fixes n M A :: int and k :: nat
  assumes n: "0 \<le> n" "n < 2 ^ 31" and M: "0 \<le> M" "M < 2 ^ 53" and k: "32 \<le> k"
    and H1: "\<And>X. 1 \<le> X \<Longrightarrow> n * M < 2 ^ 53 * X \<Longrightarrow> 2 * (A * 2 ^ k) < 2 * (n * M) + X"
    and H2: "\<And>X. 1 \<le> X \<Longrightarrow> X \<le> 2 ^ 31 \<Longrightarrow> 2 * (n * M) + X < 2 * (A * 2 ^ k) + 2 * 2 ^ k"
  shows "int_of_float64_mul n (M, - int k) = A"
proof -
  define P where "P = n * M"
  define s where "s = excess_bits P"
  define X :: int where "X = 2 ^ s"
  define Y :: int where "Y = 2 ^ (k - s)"
  have n53: "excess_bits n = 0"
    using n by (simp add: excess_bits.simps)
  have a: "round_to_f64 (n, 0) = (n, 0)"
    by (simp add: round_to_f64_def n53)
  have P0: "0 \<le> P" using n M by (simp add: P_def)
  have "n * M \<le> 2 ^ 31 * M" using n M by (simp add: mult_right_mono)
  also have "\<dots> < 2 ^ 31 * 2 ^ 53" using M by simp
  finally have "P < 2 ^ 53 * 2 ^ 31" by (simp add: P_def)
  with P0 have s31: "s \<le> 31" unfolding s_def by (rule excess_bits_le)
  have X: "1 \<le> X" "X \<le> 2 ^ 31"
    unfolding X_def using s31 by (simp_all add: power_increasing del: power_numeral)
  have PX: "P < 2 ^ 53 * X"
    using excess_bits_upper [OF P0] by (simp add: X_def s_def)
  obtain q e' where r: "round_to_f64 (P, - int k) = (q, e')" by (cases "round_to_f64 (P, - int k)")
  note props = round_to_f64_props [OF P0 r, folded s_def, folded X_def]
  have sk: "s < k" using s31 k by simp
  then have XY: "X * Y = 2 ^ k"
    by (simp add: X_def Y_def power_add [symmetric])
  have Ypos: "0 < Y" by (simp add: Y_def)
  have Xpos: "0 < X" using X by simp
  have e': "e' < 0" "nat (- e') = k - s"
    using props(1) sk by simp_all
  have t: "f64_truncate (q, e') = q div Y"
    using e' by (simp add: f64_truncate_def Y_def)
  have "2 * (A * (X * Y)) < 2 * P + X"
    using H1 [OF X(1)] PX by (simp add: XY P_def)
  also have "\<dots> \<le> 2 * (q * X) + X + X" using props(3) by simp
  finally have "(A * Y) * X < (q + 1) * X" by (simp add: algebra_simps)
  then have "A * Y < q + 1" using Xpos by (simp add: mult_less_cancel_right)
  then have lo: "A * Y \<le> q" by simp
  have "2 * (q * X) \<le> 2 * P + X" by (rule props(2))
  also have "\<dots> < 2 * ((A + 1) * (X * Y))"
    using H2 [OF X] by (simp add: XY P_def algebra_simps)
  finally have "q * X < ((A + 1) * Y) * X" by (simp add: algebra_simps)
  then have hi: "q < (A + 1) * Y" using Xpos by (simp add: mult_less_cancel_right)
  have "q div Y = A" by (rule div_sandwich [OF Ypos lo hi])
  with t have "f64_truncate (round_to_f64 (P, - int k)) = A" by (simp add: r)
  then show ?thesis
    using n by (simp add: int_of_float64_mul_def a P_def Let_def)
qed

lemma div_100_bounds:
  fixes m :: int
  shows "100 * (m div 100) \<le> m" and "m \<le> 100 * (m div 100) + 99"
  by presburger+

lemma int_of_float64_mul_percent:
  assumes "0 \<le> n" and "n < 2 ^ 31"
  shows "int_of_float64_mul n f64_0_40 = n * 40 div 100"
    and "int_of_float64_mul n f64_0_45 = n * 45 div 100"
    and "int_of_float64_mul n f64_0_15 = n * 15 div 100"
proof -
  have n: "0 \<le> n" "n < 2147483648" using assms by simp_all
  have p: "(2::int) ^ 31 = 2147483648" "(2::int) ^ 53 = 9007199254740992"
    "(2::int) ^ 54 = 18014398509481984" "(2::int) ^ 55 = 36028797018963968"
    by simp_all
  define A40 where "A40 = n * 40 div 100"
  define A45 where "A45 = n * 45 div 100"
  define A15 where "A15 = n * 15 div 100"
  note b40 = div_100_bounds [of "n * 40", folded A40_def]
  note b45 = div_100_bounds [of "n * 45", folded A45_def]
  note b15 = div_100_bounds [of "n * 15", folded A15_def]
  have "int_of_float64_mul n (7205759403792794, - int 54) = A40"
  proof (rule int_of_float64_mul_floor)
    fix X :: int
    assume "1 \<le> X" "n * 7205759403792794 < 2 ^ 53 * X"
    then show "2 * (A40 * 2 ^ 54) < 2 * (n * 7205759403792794) + X"
      unfolding p using n b40 by linarith
  next
    fix X :: int
    assume "1 \<le> X" "X \<le> 2 ^ 31"
    then show "2 * (n * 7205759403792794) + X < 2 * (A40 * 2 ^ 54) + 2 * 2 ^ 54"
      unfolding p using n b40 by linarith
  qed (use assms in simp_all)
  then show "int_of_float64_mul n f64_0_40 = n * 40 div 100"
    by (simp add: f64_0_40_def A40_def)
  have "int_of_float64_mul n (8106479329266893, - int 54) = A45"
  proof (rule int_of_float64_mul_floor)
    fix X :: int
    assume "1 \<le> X" "n * 8106479329266893 < 2 ^ 53 * X"
    then show "2 * (A45 * 2 ^ 54) < 2 * (n * 8106479329266893) + X"
      unfolding p using n b45 by linarith
  next
    fix X :: int
    assume "1 \<le> X" "X \<le> 2 ^ 31"
    then show "2 * (n * 8106479329266893) + X < 2 * (A45 * 2 ^ 54) + 2 * 2 ^ 54"
      unfolding p using n b45 by linarith
  qed (use assms in simp_all)
  then show "int_of_float64_mul n f64_0_45 = n * 45 div 100"
    by (simp add: f64_0_45_def A45_def)
  have "int_of_float64_mul n (5404319552844595, - int 55) = A15"
  proof (rule int_of_float64_mul_floor)
    fix X :: int
    assume "1 \<le> X" "n * 5404319552844595 < 2 ^ 53 * X"
    then show "2 * (A15 * 2 ^ 55) < 2 * (n * 5404319552844595) + X"
      unfolding p using n b15 by linarith
  next
    fix X :: int
    assume "1 \<le> X" "X \<le> 2 ^ 31"
    then show "2 * (n * 5404319552844595) + X < 2 * (A15 * 2 ^ 55) + 2 * 2 ^ 55"
      unfolding p using n b15 by linarith
  qed (use assms in simp_all)
  then show "int_of_float64_mul n f64_0_15 = n * 15 div 100"
    by (simp add: f64_0_15_def A15_def)
qed

section \<open>Layout budget\<close>

text \<open>
  C4.  For every terminal width of at least 1 that the capability probe reports, the
  layout has \<open>ContentWidth = max (width - uiOverhead) 20\<close>, where \<open>uiOverhead\<close> is 4
  below 40 columns and 8 otherwise, and \<open>TruncationLimit = max (ContentWidth - 10) 10\<close>.
  So the content width is never under 20 and the truncation limit never under 10; 80
  columns give 72 and 62, and 15 columns give the floors 20 and 10.
\<close>

theorem detectTerminalLayout_budget:
  assumes "Width (detectTerminalCapabilities sys) = width" and "1 \<le> width"
  shows "layout_Width (detectTerminalLayout sys) = width
       \<and> ContentWidth (detectTerminalLayout sys) = max (width - (if width < 40 then 4 else 8)) 20
       \<and> TruncationLimit (detectTerminalLayout sys)
           = max (ContentWidth (detectTerminalLayout sys) - 10) 10
       \<and> 20 \<le> ContentWidth (detectTerminalLayout sys)
       \<and> 10 \<le> TruncationLimit (detectTerminalLayout sys)
       \<and> (width = 80 \<longrightarrow> ContentWidth (detectTerminalLayout sys) = 72
                        \<and> TruncationLimit (detectTerminalLayout sys) = 62)
       \<and> (width = 15 \<longrightarrow> ContentWidth (detectTerminalLayout sys) = 20
                        \<and> TruncationLimit (detectTerminalLayout sys) = 10)"
  using assms by (simp add: detectTerminalLayout_def Let_def)

theorem detectTerminalLayout_budget_witness:
  "Width (detectTerminalCapabilities (tty_system 80 24)) = 80 \<and> (1::int) \<le> 80
   \<and> ContentWidth (detectTerminalLayout (tty_system 80 24)) = 72
   \<and> TruncationLimit (detectTerminalLayout (tty_system 80 24)) = 62
   \<and> Width (detectTerminalCapabilities (tty_system 15 24)) = 15 \<and> (1::int) \<le> 15
   \<and> ContentWidth (detectTerminalLayout (tty_system 15 24)) = 20
   \<and> TruncationLimit (detectTerminalLayout (tty_system 15 24)) = 10"
  using detectTerminalLayout_budget [of "tty_system 80 24" 80]
        detectTerminalLayout_budget [of "tty_system 15 24" 15]
  by simp

section \<open>Column widths\<close>

text \<open>
  C5.  For every layout, the three column widths are the truncated products of the
  content width with 0.40, 0.45 and 0.15, raised to the minimums 8, 10 and 6; for a content
  width from 0 up to \<open>2 ^ 31\<close> these products are exactly 40, 45 and 15 percent of it,
  rounded down.  So \<open>nameWidth \<ge> 8\<close>, \<open>urlWidth \<ge> 10\<close> and \<open>modelWidth \<ge> 6\<close> whatever the
  content width is, and a content width of 72 (80 columns) gives 28, 32 and 10.
\<close>

theorem newDisplayFormatter_columns:
  "nameWidth (newDisplayFormatter lay) = max (int_of_float64_mul (ContentWidth lay) f64_0_40) 8
   \<and> urlWidth (newDisplayFormatter lay) = max (int_of_float64_mul (ContentWidth lay) f64_0_45) 10
   \<and> modelWidth (newDisplayFormatter lay) = max (int_of_float64_mul (ContentWidth lay) f64_0_15) 6
   \<and> (0 \<le> ContentWidth lay \<and> ContentWidth lay < 2 ^ 31 \<longrightarrow>
         nameWidth (newDisplayFormatter lay) = max (ContentWidth lay * 40 div 100) 8
         \<and> urlWidth (newDisplayFormatter lay) = max (ContentWidth lay * 45 div 100) 10
         \<and> modelWidth (newDisplayFormatter lay) = max (ContentWidth lay * 15 div 100) 6)
   \<and> 8 \<le> nameWidth (newDisplayFormatter lay)
   \<and> 10 \<le> urlWidth (newDisplayFormatter lay)
   \<and> 6 \<le> modelWidth (newDisplayFormatter lay)
   \<and> (ContentWidth lay = 72 \<longrightarrow>
         nameWidth (newDisplayFormatter lay) = 28 \<and> urlWidth (newDisplayFormatter lay) = 32
         \<and> modelWidth (newDisplayFormatter lay) = 10)"
proof -
  have widths:
    "nameWidth (newDisplayFormatter lay) = max (int_of_float64_mul (ContentWidth lay) f64_0_40) 8"
    "urlWidth (newDisplayFormatter lay) = max (int_of_float64_mul (ContentWidth lay) f64_0_45) 10"
    "modelWidth (newDisplayFormatter lay) = max (int_of_float64_mul (ContentWidth lay) f64_0_15) 6"
    by (simp_all add: newDisplayFormatter_def Let_def)
  have percent:
    "nameWidth (newDisplayFormatter lay) = max (ContentWidth lay * 40 div 100) 8
     \<and> urlWidth (newDisplayFormatter lay) = max (ContentWidth lay * 45 div 100) 10
     \<and> modelWidth (newDisplayFormatter lay) = max (ContentWidth lay * 15 div 100) 6"
    if "0 \<le> ContentWidth lay" "ContentWidth lay < 2 ^ 31"
    using int_of_float64_mul_percent [OF that] by (simp only: widths)
  have example:
    "nameWidth (newDisplayFormatter lay) = 28 \<and> urlWidth (newDisplayFormatter lay) = 32
     \<and> modelWidth (newDisplayFormatter lay) = 10"
    if "ContentWidth lay = 72"
    using that by (simp add: widths int_of_float64_mul_72)
  from widths percent example show ?thesis
    by simp
qed

theorem newDisplayFormatter_columns_witness:
  "ContentWidth (detectTerminalLayout (tty_system 80 24)) = 72
   \<and> 0 \<le> ContentWidth (detectTerminalLayout (tty_system 80 24))
   \<and> ContentWidth (detectTerminalLayout (tty_system 80 24)) < 2 ^ 31
   \<and> nameWidth (newDisplayFormatter (detectTerminalLayout (tty_system 80 24))) = 28
   \<and> urlWidth (newDisplayFormatter (detectTerminalLayout (tty_system 80 24))) = 32
   \<and> modelWidth (newDisplayFormatter (detectTerminalLayout (tty_system 80 24))) = 10
   \<and> max ((72::int) * 40 div 100) 8 = 28 \<and> max ((72::int) * 45 div 100) 10 = 32
   \<and> max ((72::int) * 15 div 100) 6 = 10"
  using newDisplayFormatter_columns [of "detectTerminalLayout (tty_system 80 24)"]
  by (simp add: detectTerminalLayout_def Let_def)

section \<open>Truncation stays within the column\<close>

text \<open>
  With a column width at or above its floor, the name and the URL truncations return a
  string no longer than the column, and so does the model truncation for a non-empty
  model, or for any model when the column has at least 7 characters.  None of them panics.
\<close>

lemma smartTruncateName_fits:
  assumes "8 \<le> nameWidth df"
  shows "\<exists>r t. smartTruncateName df name = Some (r, t) \<and> go_len r \<le> nameWidth df"
  using assms
  by (auto simp: smartTruncateName_def Let_def slice_to_def slice_from_def go_len_def
      signed_divide_int_def sgn_if)

lemma strings_Index_range:
  "- 1 \<le> strings_Index s sep \<and> strings_Index s sep \<le> go_len s"
  by (induction s) (auto simp: Let_def go_len_def)

lemma slice_to_prefix_ellipsis:
  assumes "3 \<le> w" and "w < go_len s"
  shows "\<exists>p. slice_to s (w - 3) = Some p \<and> go_len (p @ ''...'') = w"
  using assms by (simp add: slice_to_def go_len_def)

lemma domain_slice:
  "\<exists>d. slice_to r (if strings_Index r sep = - 1 then go_len r else strings_Index r sep) = Some d"
  using strings_Index_range [of r sep] by (auto simp: slice_to_def go_len_def)

lemma smartTruncateURL_fits:
  assumes "10 \<le> urlWidth df"
  shows "\<exists>r t. smartTruncateURL df url = Some (r, t) \<and> go_len r \<le> urlWidth df"
proof (cases "go_len url \<le> urlWidth df")
  case True
  then show ?thesis by (auto simp: smartTruncateURL_def)
next
  case False
  from assms False slice_to_prefix_ellipsis [of "urlWidth df" url]
  obtain p where p: "slice_to url (urlWidth df - 3) = Some p" "go_len (p @ ''...'') = urlWidth df"
    by auto
  show ?thesis
  proof (cases "strings_Contains url ''://''")
    case no: False
    with False p show ?thesis
      by (auto simp: smartTruncateURL_def)
  next
    case yes: True
    define p0 where "p0 = take (nat (strings_Index url ''://'')) url"
    define remaining where "remaining = drop (nat (strings_Index url ''://'') + length ''://'') url"
    from yes have split: "strings_SplitN2 url ''://'' = [p0, remaining]"
      by (simp add: strings_SplitN2_def strings_Contains_def Let_def p0_def remaining_def)
    from domain_slice [of remaining "''/''"] obtain d where
      d: "slice_to remaining (if strings_Index remaining ''/'' = - 1 then go_len remaining
                              else strings_Index remaining ''/'') = Some d"
      by blast
    have eq: "smartTruncateURL df url =
        (if go_len (p0 @ ''://'') + go_len d \<le> urlWidth df - 3
         then Some ((p0 @ ''://'') @ d @ ''...'', True)
         else Some (p @ ''...'', True))"
      using False yes d p
      by (simp add: smartTruncateURL_def split Let_def split del: if_split)
    show ?thesis
      unfolding eq using p by (auto simp: go_len_def)
  qed
qed

lemma smartTruncateModel_fits:
  assumes "6 \<le> modelWidth df" and "model \<noteq> '''' \<or> 7 \<le> modelWidth df"
  shows "\<exists>r t. smartTruncateModel df model = Some (r, t) \<and> go_len r \<le> modelWidth df"
  using assms
  by (auto simp: smartTruncateModel_def slice_to_def go_len_def)

text \<open>
  C1.  The specification says that each of the three truncation functions returns a string no longer
  than its column, also the model function on empty input.  In a terminal of 40 columns
  the model column has its floor width 6, and for the empty model the function returns
  the placeholder \<open>default\<close>, which has 7 characters.
\<close>

theorem smartTruncateModel_default_exceeds:
  "modelWidth (newDisplayFormatter (detectTerminalLayout (tty_system 40 24))) = 6
   \<and> smartTruncateModel (newDisplayFormatter (detectTerminalLayout (tty_system 40 24))) ''''
       = Some (''default'', False)
   \<and> go_len ''default'' = 7"
  by (simp add: smartTruncateModel_def go_len_def newDisplayFormatter_def
      detectTerminalLayout_def Let_def int_of_float64_mul_32)

section \<open>Single-line composition and the terminal width\<close>

text \<open>
  On the full path (at least 20 characters left after the prefix and the six static
  characters) the line never panics and is no longer than the terminal width.  On the
  minimal path the line is the prefix followed by the name, cut to ten characters; nothing
  relates it to the terminal width.
\<close>

lemma truncate_to_space_fits:
  assumes "0 \<le> space"
  shows "\<exists>r. truncate_to_space field space = Some r \<and> go_len r \<le> space"
  using assms by (auto simp: truncate_to_space_def slice_to_def go_len_def)

lemma final_check_fits:
  assumes "3 < w"
  shows "\<exists>r. (if go_len line > w then
              (let maxLen = w - 3
               in if maxLen > 0 then do { p \<leftarrow> slice_to line maxLen; Some (p @ ''...'') }
                  else slice_to line w)
            else Some line) = Some r \<and> go_len r \<le> w"
  using assms by (auto simp: slice_to_def go_len_def Let_def)

lemma formatSingleLine_full_fits:
  assumes "20 \<le> layout_Width (layout df) - go_len prefix - 6"
  shows "\<exists>line. formatSingleLine df prefix env = Some line
           \<and> go_len line \<le> layout_Width (layout df)"
proof -
  define m where "m = layout_Width (layout df) - go_len prefix - 6"
  define nameSpace where
    "nameSpace = (if int_of_float64_mul m f64_0_40 < 8 then 8 else int_of_float64_mul m f64_0_40)"
  define urlSpace where
    "urlSpace = (if int_of_float64_mul m f64_0_45 < 10 then 10 else int_of_float64_mul m f64_0_45)"
  define modelSpace where
    "modelSpace = (if m - int_of_float64_mul m f64_0_40 - int_of_float64_mul m f64_0_45 < 6 then 6
                   else m - int_of_float64_mul m f64_0_40 - int_of_float64_mul m f64_0_45)"
  have "0 \<le> nameSpace" "0 \<le> urlSpace" "0 \<le> modelSpace"
    by (simp_all add: nameSpace_def urlSpace_def modelSpace_def)
  then obtain name url model where
    n: "truncate_to_space (Name env) nameSpace = Some name" and
    u: "truncate_to_space (URL env) urlSpace = Some url" and
    mo: "truncate_to_space (if Model env = '''' then ''default'' else Model env) modelSpace
          = Some model"
    using truncate_to_space_fits by meson
  have w: "3 < layout_Width (layout df)"
    using assms by (simp add: go_len_def)
  have eq: "formatSingleLine df prefix env =
      (if go_len (prefix @ name @ '' ('' @ url @ '') ['' @ model @ '']'') > layout_Width (layout df)
       then (let maxLen = layout_Width (layout df) - 3
             in if maxLen > 0
                then do { p \<leftarrow> slice_to (prefix @ name @ '' ('' @ url @ '') ['' @ model @ '']'') maxLen;
                          Some (p @ ''...'') }
                else slice_to (prefix @ name @ '' ('' @ url @ '') ['' @ model @ '']'')
                       (layout_Width (layout df)))
       else Some (prefix @ name @ '' ('' @ url @ '') ['' @ model @ '']''))"
    using assms n u mo
    unfolding formatSingleLine_def m_def [symmetric] Let_def
      nameSpace_def [symmetric] urlSpace_def [symmetric] modelSpace_def [symmetric]
    by (simp add: m_def split del: if_split)
  show ?thesis
    unfolding eq by (rule final_check_fits [OF w])
qed

lemma formatSingleLine_minimal:
  assumes "layout_Width (layout df) - go_len prefix - 6 < 20"
  shows "formatSingleLine df prefix env =
           Some (prefix @ (if go_len (Name env) > 10 then take 7 (Name env) @ ''...'' else Name env))"
  using assms by (auto simp: formatSingleLine_def slice_to_def go_len_def Let_def)

text \<open>So the line fits every terminal that has room for the prefix and ten more
  characters.\<close>

lemma formatSingleLine_fits:
  assumes "go_len prefix + 10 \<le> layout_Width (layout df)"
  shows "\<exists>line. formatSingleLine df prefix env = Some line
           \<and> go_len line \<le> layout_Width (layout df)"
proof (cases "20 \<le> layout_Width (layout df) - go_len prefix - 6")
  case True
  then show ?thesis by (rule formatSingleLine_full_fits)
next
  case False
  then have "formatSingleLine df prefix env =
      Some (prefix @ (if go_len (Name env) > 10 then take 7 (Name env) @ ''...'' else Name env))"
    by (simp add: formatSingleLine_minimal)
  with assms show ?thesis
    by (auto simp: go_len_def)
qed

text \<open>
  C3.  The specification says that the composed line is never longer than the terminal width, also on
  the minimal path.  In a terminal of 10 columns the unselected line of a profile named
  \<open>production\<close> is the two-space prefix and the name: 12 characters.
\<close>

theorem formatSingleLine_minimal_exceeds:
  "layout_Width (layout (newDisplayFormatter (detectTerminalLayout (tty_system 10 24)))) = 10
   \<and> formatSingleLine (newDisplayFormatter (detectTerminalLayout (tty_system 10 24)))
         ''  '' env_production = Some ''  production''
   \<and> go_len ''  production'' = 12"
  by (simp add: formatSingleLine_def newDisplayFormatter_def detectTerminalLayout_def
      Let_def go_len_def env_production_def)

section \<open>Key classification\<close>

text \<open>
  C6, as stated: every multi-byte input other than the three-byte arrow sequences is
  unrecognized.  The four bytes \<open>ESC [ A B\<close> are classified as the up arrow.
\<close>

theorem parseKeyInput_trailing_bytes:
  "parseKeyInput [CHR 0x1B, CHR ''['', CHR ''A'', CHR ''B''] = (ArrowUp, 0, None)"
  by (simp add: parseKeyInput_def)

text \<open>
  C6, amended.  The empty input is an error of its own.  A single byte is never an arrow:
  line feed and carriage return give the line-feed character, every other byte (escape and
  Ctrl-C among them) is passed through as its own code.  An input that begins with
  \<open>ESC [\<close> and one of \<open>A\<close>, \<open>B\<close>, \<open>C\<close>, \<open>D\<close> is the up, down, right or left arrow, whatever
  follows these three bytes.  Every other input of two or more bytes is the
  unrecognized-sequence error.
\<close>

theorem parseKeyInput_classification:
  "parseKeyInput [] = (ArrowNone, 0, Some EmptyInput)
   \<and> parseKeyInput [c] =
        (ArrowNone, (if c = CHR 0x0A \<or> c = CHR 0x0D then 0x0A else of_char c), None)
   \<and> parseKeyInput [CHR 0x0A] = (ArrowNone, 0x0A, None)
   \<and> parseKeyInput [CHR 0x0D] = (ArrowNone, 0x0A, None)
   \<and> parseKeyInput [CHR 0x1B] = (ArrowNone, 0x1B, None)
   \<and> parseKeyInput [CHR 0x03] = (ArrowNone, 0x03, None)
   \<and> parseKeyInput (CHR 0x1B # CHR ''['' # CHR ''A'' # rest) = (ArrowUp, 0, None)
   \<and> parseKeyInput (CHR 0x1B # CHR ''['' # CHR ''B'' # rest) = (ArrowDown, 0, None)
   \<and> parseKeyInput (CHR 0x1B # CHR ''['' # CHR ''C'' # rest) = (ArrowRight, 0, None)
   \<and> parseKeyInput (CHR 0x1B # CHR ''['' # CHR ''D'' # rest) = (ArrowLeft, 0, None)
   \<and> (2 \<le> length input
        \<and> \<not> (\<exists>k tail. k \<in> {CHR ''A'', CHR ''B'', CHR ''C'', CHR ''D''}
                       \<and> input = CHR 0x1B # CHR ''['' # k # tail)
        \<longrightarrow> parseKeyInput input = (ArrowNone, 0, Some UnrecognizedKeySequence))"
proof -
  have single: "parseKeyInput [c] =
        (ArrowNone, (if c = CHR 0x0A \<or> c = CHR 0x0D then 0x0A else of_char c), None)"
    by (simp add: parseKeyInput_def)
  have other: "parseKeyInput input = (ArrowNone, 0, Some UnrecognizedKeySequence)"
    if len: "2 \<le> length input"
      and no: "\<not> (\<exists>k tail. k \<in> {CHR ''A'', CHR ''B'', CHR ''C'', CHR ''D''}
                       \<and> input = CHR 0x1B # CHR ''['' # k # tail)"
  proof (cases input)
    case Nil
    with len show ?thesis by simp
  next
    case (Cons a r1)
    show ?thesis
    proof (cases r1)
      case Nil
      with Cons len show ?thesis by simp
    next
      case c2: (Cons b r2)
      show ?thesis
      proof (cases r2)
        case Nil
        with Cons c2 show ?thesis by (simp add: parseKeyInput_def)
      next
        case c3: (Cons k tail)
        with Cons c2 no show ?thesis by (auto simp: parseKeyInput_def Let_def numeral_2_eq_2)
      qed
    qed
  qed
  show ?thesis
    using single other by (simp add: parseKeyInput_def)
qed

theorem parseKeyInput_classification_witness:
  "parseKeyInput [CHR 0x0D] = (ArrowNone, 0x0A, None)
   \<and> parseKeyInput [CHR ''a''] = (ArrowNone, 97, None)
   \<and> parseKeyInput [CHR 0x1B, CHR ''['', CHR ''A''] = (ArrowUp, 0, None)
   \<and> 2 \<le> length [CHR 0x1B, CHR ''['', CHR ''Z'']
   \<and> \<not> (\<exists>k tail. k \<in> {CHR ''A'', CHR ''B'', CHR ''C'', CHR ''D''}
                 \<and> [CHR 0x1B, CHR ''['', CHR ''Z''] = CHR 0x1B # CHR ''['' # k # tail)
   \<and> parseKeyInput [CHR 0x1B, CHR ''['', CHR ''Z''] = (ArrowNone, 0, Some UnrecognizedKeySequence)"
  using parseKeyInput_classification [of "CHR ''a''" "[]" "[CHR 0x1B, CHR ''['', CHR ''Z'']"]
  by simp

text \<open>What the loop of the interactive tiers does with a character: line feed confirms
  the selected profile, escape and Ctrl-C cancel, any other character changes nothing.\<close>

lemma handle_key_characters:
  "0 \<le> selectedIndex \<Longrightarrow> selectedIndex < go_len environments \<Longrightarrow>
     handle_key environments selectedIndex ArrowNone 0x0A
       = Some (Return (Inr (environments ! nat selectedIndex)))"
  "handle_key environments selectedIndex ArrowNone 0x1B = Some (Return (Inl SelectionCancelled))"
  "handle_key environments selectedIndex ArrowNone 0x03 = Some (Return (Inl SelectionCancelled))"
  "char \<notin> {0x0A, 0x0D, 0x1B, 0x03} \<Longrightarrow>
     handle_key environments selectedIndex ArrowNone char = Some (Continue selectedIndex)"
  by (simp_all add: handle_key_def go_index_def)

section \<open>Render-state update\<close>

lemma lines_changed_from_iff:
  "length lines + i = length stored \<Longrightarrow>
     lines_changed_from lines stored i = (lines \<noteq> drop i stored)"
proof (induction lines arbitrary: i)
  case Nil
  then show ?case by simp
next
  case (Cons line rest)
  then have "i < length stored" by simp
  then have "drop i stored = stored ! i # drop (Suc i) stored"
    by (simp add: Cons_nth_drop_Suc)
  with Cons show ?case by simp
qed

text \<open>
  C10.  On an initialized display state (every state is created initialized and stays so),
  for all new lines and every new selection: \<open>contentChanged\<close> says whether the new lines
  differ from the stored ones, \<open>selectionChanged\<close> is true exactly when the selection
  differs from the stored one and \<open>contentChanged\<close> is false, so the two flags are never
  both true; the new lines and selection are stored and the previous current selection
  becomes \<open>lastSelection\<close>.
\<close>

theorem UpdateContent_flags:
  assumes "initialized ds"
  shows "contentChanged (UpdateContent ds lines selection) = (lines \<noteq> currentLines ds)
       \<and> selectionChanged (UpdateContent ds lines selection)
           = (selection \<noteq> currentSelection ds
              \<and> \<not> contentChanged (UpdateContent ds lines selection))
       \<and> \<not> (contentChanged (UpdateContent ds lines selection)
             \<and> selectionChanged (UpdateContent ds lines selection))
       \<and> currentLines (UpdateContent ds lines selection) = lines
       \<and> currentSelection (UpdateContent ds lines selection) = selection
       \<and> lastSelection (UpdateContent ds lines selection) = currentSelection ds
       \<and> initialized (UpdateContent ds lines selection)"
proof (cases "length lines = length (currentLines ds)")
  case True
  then have "lines_changed_from lines (currentLines ds) 0 = (lines \<noteq> currentLines ds)"
    using lines_changed_from_iff [of lines 0 "currentLines ds"] by simp
  with assms True show ?thesis
    by (auto simp: UpdateContent_def Let_def)
next
  case False
  then have "lines \<noteq> currentLines ds" by auto
  with assms False show ?thesis
    by (auto simp: UpdateContent_def Let_def)
qed

theorem UpdateContent_flags_witness:
  "initialized (initializeDisplayState (tty_system 80 24))
   \<and> contentChanged (UpdateContent (initializeDisplayState (tty_system 80 24)) [''a'', ''b''] 1)
   \<and> \<not> selectionChanged (UpdateContent (initializeDisplayState (tty_system 80 24)) [''a'', ''b''] 1)
   \<and> \<not> contentChanged (UpdateContent
          (UpdateContent (initializeDisplayState (tty_system 80 24)) [''a'', ''b''] 0) [''a'', ''b''] 1)
   \<and> selectionChanged (UpdateContent
          (UpdateContent (initializeDisplayState (tty_system 80 24)) [''a'', ''b''] 0) [''a'', ''b''] 1)
   \<and> lastSelection (UpdateContent
          (UpdateContent (initializeDisplayState (tty_system 80 24)) [''a'', ''b''] 0) [''a'', ''b''] 1) = 0"
  using UpdateContent_flags [of "initializeDisplayState (tty_system 80 24)" "[''a'', ''b'']" 1]
    UpdateContent_flags [of "UpdateContent (initializeDisplayState (tty_system 80 24)) [''a'', ''b''] 0"
       "[''a'', ''b'']" 1]
  by (simp add: initializeDisplayState_def UpdateContent_def Let_def)

text \<open>The \<open>initialized\<close> flag is an invariant of the states the program creates; an
  uninitialized state would be left as it is.\<close>

lemma UpdateContent_uninitialized:
  "\<not> initialized ds \<Longrightarrow> UpdateContent ds lines selection = ds"
  by (simp add: UpdateContent_def)

lemma initialized_invariant:
  "initialized (initializeDisplayState sys)"
  "initialized ds \<Longrightarrow> initialized (UpdateContent ds lines selection)"
  "initialized ds \<Longrightarrow> initialized (ClearDisplay ds)"
  by (simp_all add: initializeDisplayState_def UpdateContent_def ClearDisplay_def Let_def)

section \<open>The headless tier\<close>

lemma isHeadlessMode_iff:
  "isHeadlessMode sys =
     (case stdout_stat sys of
        Some charDevice \<Rightarrow> \<not> charDevice
      | None \<Rightarrow> getenv sys ''CI'' \<noteq> '''' \<or> getenv sys ''CONTINUOUS_INTEGRATION'' \<noteq> ''''
                \<or> getenv sys ''GITHUB_ACTIONS'' \<noteq> '''' \<or> getenv sys ''GITLAB_CI'' \<noteq> ''''
                \<or> getenv sys ''JENKINS_URL'' \<noteq> '''')"
  by (simp add: isHeadlessMode_def split: option.splits)

lemma headless_dispatch:
  assumes "2 \<le> length (Environments config)" and "\<not> stdin_is_terminal (os w)"
  shows "selectEnvironmentWithArrows config w =
           (if isHeadlessMode (os w)
            then Some (Inr (hd (Environments config)),
                       print (''Headless mode: using first environment '' @ [CHR 0x27]
                                @ Name (hd (Environments config)) @ [CHR 0x27, CHR 0x0A]) w)
            else fallbackToNumberedSelection config w)"
proof -
  from assms(1) obtain e1 e2 rest where envs: "Environments config = e1 # e2 # rest"
    by (cases "Environments config"; cases "tl (Environments config)") auto
  from assms(2) have "\<not> IsTerminal (detectTerminalCapabilities (os w))"
    by (simp add: detectTerminalCapabilities_def Let_def)
  then show ?thesis
    by (simp add: selectEnvironmentWithArrows_def envs go_len_def go_index_def Let_def)
qed

lemma int_of_float64_mul_71:
  "int_of_float64_mul 71 f64_0_40 = 28"
  "int_of_float64_mul 71 f64_0_45 = 31"
  by (simp_all add: int_of_float64_mul_def f64_0_40_def f64_0_45_def f64_0_15_def
        round_to_f64_def f64_truncate_def excess_bits.simps)

lemma layout_Width_ci:
  "layout_Width (layout (newDisplayFormatter (detectTerminalLayout ci_terminal_system))) = 80"
  by (simp add: newDisplayFormatter_def detectTerminalLayout_def detectTerminalCapabilities_def
      ci_terminal_system_def Let_def)

lemma numbered_line_1:
  "formatSingleLine (newDisplayFormatter (detectTerminalLayout ci_terminal_system))
     ''1. '' env_production = Some ''1. production (https://api.openai.com/v1) [default]''"
  by (simp add: formatSingleLine_def go_len_def Let_def int_of_float64_mul_71
      truncate_to_space_def env_production_def layout_Width_ci)

lemma numbered_line_2:
  "formatSingleLine (newDisplayFormatter (detectTerminalLayout ci_terminal_system))
     ''2. '' env_staging = Some ''2. staging (https://staging.example.com/v1) [gpt-5]''"
  by (simp add: formatSingleLine_def go_len_def Let_def int_of_float64_mul_71
      truncate_to_space_def env_staging_def layout_Width_ci)

lemma sprint_int_small: "sprint_int 1 = ''1''" "sprint_int 2 = ''2''"
  by (simp_all add: sprint_int_def decimal.simps)

lemma TrimSpace_choice_2: "strings_TrimSpace (''2'' @ [CHR 0x0A]) = ''2''"
  by (simp add: strings_TrimSpace_def trim_left.simps trim_right.simps leading_space_def
      trailing_space_def white_space_def strings_HasPrefix_def strings_HasSuffix_def)

lemma Atoi_choice_2: "strconv_Atoi ''2'' = Inr 2"
  by (simp add: strconv_Atoi_def is_digit_def Let_def)

lemma ReadString_choice_2:
  assumes "stdin w = [Data (''2'' @ [CHR 0x0A])]"
  shows "bufio_ReadString [] 0 w = (Inr (''2'' @ [CHR 0x0A]), w\<lparr> stdin := [] \<rparr>)"
  using assms by (simp add: bufio_ReadString.simps stdin_Read_def)

text \<open>
  C2.  The specification says that, with standard input not a terminal, the first profile is selected
  and the headless line printed if and only if standard output is redirected or one of the
  CI variables is set.  \<open>isHeadlessMode\<close> returns from its first test whenever
  \<open>os.Stdout.Stat\<close> succeeds, so it looks at the CI variables only when \<open>Stat\<close> fails.  With
  standard input piped, standard output a terminal and \<open>CI=true\<close>, it answers no: the
  numbered menu is printed and the answer \<open>2\<close> on standard input selects the second
  profile.
\<close>

theorem headless_ci_ignored_on_terminal_stdout:
  "\<not> stdin_is_terminal ci_terminal_system
   \<and> getenv ci_terminal_system ''CI'' = ''true''
   \<and> isHeadlessMode ci_terminal_system = False
   \<and> map_option (\<lambda>(r, w). (r, stdout w))
        (selectEnvironmentWithArrows two_profiles
           (initial_world ci_terminal_system [Data (''2'' @ [CHR 0x0A])]))
     = Some (Inr env_staging,
         ''Arrow key navigation not supported, using numbered selection:'' @ [CHR 0x0A]
         @ ''Select environment:'' @ [CHR 0x0A]
         @ ''1. production (https://api.openai.com/v1) [default]'' @ [CHR 0x0A]
         @ ''2. staging (https://staging.example.com/v1) [gpt-5]'' @ [CHR 0x0A]
         @ ''Enter number (1-2): '')"
proof -
  define w0 where "w0 = initial_world ci_terminal_system [Data (''2'' @ [CHR 0x0A])]"
  have os0: "os w0 = ci_terminal_system" and in0: "stdin w0 = [Data (''2'' @ [CHR 0x0A])]"
    and out0: "stdout w0 = ''''"
    by (simp_all add: w0_def initial_world_def)
  have nowrite: "stdout_write_error ci_terminal_system = None"
    by (simp add: ci_terminal_system_def)
  have head: "isHeadlessMode ci_terminal_system = False"
    by (simp add: isHeadlessMode_def ci_terminal_system_def)
  have disp: "selectEnvironmentWithArrows two_profiles w0 = fallbackToNumberedSelection two_profiles w0"
    using headless_dispatch [of two_profiles w0] head
    by (simp add: two_profiles_def os0 ci_terminal_system_def)
  define w1 where "w1 = w0\<lparr> stdout := ''Arrow key navigation not supported, using numbered selection:'' @ [CHR 0x0A]
         @ ''Select environment:'' @ [CHR 0x0A] \<rparr>"
  define w2 where "w2 = w0\<lparr> stdout := ''Arrow key navigation not supported, using numbered selection:'' @ [CHR 0x0A]
         @ ''Select environment:'' @ [CHR 0x0A]
         @ ''1. production (https://api.openai.com/v1) [default]'' @ [CHR 0x0A]
         @ ''2. staging (https://staging.example.com/v1) [gpt-5]'' @ [CHR 0x0A] \<rparr>"
  have os1: "os w1 = ci_terminal_system"
    by (simp add: w1_def os0)
  have pn: "print_numbered (newDisplayFormatter (detectTerminalLayout ci_terminal_system)) 0
              [env_production, env_staging] w1 = Some (None, w2)"
    by (simp add: numbered_line_1 numbered_line_2 sprint_int_small fmt_Println_def fmt_Print_def
        os0 nowrite w1_def w2_def)
  have ri: "regularInput ''Enter number (1-2): '' w2
      = (Inr ''2'', w2\<lparr> stdout := stdout w2 @ ''Enter number (1-2): '', stdin := [] \<rparr>)"
    using ReadString_choice_2 [of "w2\<lparr> stdout := stdout w2 @ ''Enter number (1-2): '' \<rparr>"]
      TrimSpace_choice_2
    by (simp add: regularInput_def fmt_Print_def w2_def os0 nowrite in0)
  define wa where
    "wa = w0\<lparr> stdout := ''Arrow key navigation not supported, using numbered selection:'' @ [CHR 0x0A] \<rparr>"
  have f1: "snd (fmt_Println ''Arrow key navigation not supported, using numbered selection:'' w0) = wa"
    by (simp add: fmt_Println_def fmt_Print_def os0 nowrite out0 wa_def)
  have f2: "fmt_Println ''Select environment:'' wa = (None, w1)"
    by (simp add: fmt_Println_def fmt_Print_def os0 nowrite out0 wa_def w1_def)
  have "fallbackToNumberedSelection two_profiles w0
      = Some (Inr env_staging, w2\<lparr> stdout := stdout w2 @ ''Enter number (1-2): '', stdin := [] \<rparr>)"
    unfolding fallbackToNumberedSelection_def f1
    by (simp add: selectEnvironmentOriginal_def two_profiles_def go_len_def go_index_def
        f2 os1 pn ri Atoi_choice_2 sprint_int_small del: print_numbered.simps)
  with disp have c4: "map_option (\<lambda>(r, w). (r, stdout w)) (selectEnvironmentWithArrows two_profiles w0)
     = Some (Inr env_staging,
         ''Arrow key navigation not supported, using numbered selection:'' @ [CHR 0x0A]
         @ ''Select environment:'' @ [CHR 0x0A]
         @ ''1. production (https://api.openai.com/v1) [default]'' @ [CHR 0x0A]
         @ ''2. staging (https://staging.example.com/v1) [gpt-5]'' @ [CHR 0x0A]
         @ ''Enter number (1-2): '')"
    by (simp add: w2_def)
  have c1: "\<not> stdin_is_terminal ci_terminal_system"
    and c2: "getenv ci_terminal_system ''CI'' = ''true''"
    by (simp_all add: ci_terminal_system_def)
  show ?thesis
    unfolding w0_def [symmetric] by (intro conjI c1 c2 head c4)
qed

section \<open>Degenerate profile lists\<close>

text \<open>
  C8.  Whatever the state of the world is, and so whichever tier the capabilities would
  select, the selection of an empty profile list returns the no-environments error and
  the selection of a one-element list returns that element; the world is returned as it
  was: nothing has been written and no input has been consumed.  The numbered selection
  has the same two guards of its own.
\<close>

theorem degenerate_profile_lists:
  "(Environments config = [] \<longrightarrow>
       selectEnvironment config w = Some (Inl NoEnvironmentsConfigured, w)
     \<and> selectEnvironmentWithArrows config w = Some (Inl NoEnvironmentsConfigured, w)
     \<and> selectEnvironmentOriginal config w = Some (Inl NoEnvironmentsConfigured, w))
   \<and> (Environments config = [env] \<longrightarrow>
       selectEnvironment config w = Some (Inr env, w)
     \<and> selectEnvironmentWithArrows config w = Some (Inr env, w)
     \<and> selectEnvironmentOriginal config w = Some (Inr env, w))"
  by (simp add: selectEnvironment_def selectEnvironmentWithArrows_def
      selectEnvironmentOriginal_def go_len_def go_index_def)

text \<open>The four example systems lead a list of two or more profiles to the four tiers.\<close>

lemma tier_capabilities:
  "SupportsRaw (detectTerminalCapabilities (tty_system 80 24))
   \<and> SupportsANSI (detectTerminalCapabilities (tty_system 80 24))
   \<and> IsTerminal (detectTerminalCapabilities (tty_system 80 24))"
  "SupportsRaw (detectTerminalCapabilities tier2_system)
   \<and> \<not> SupportsANSI (detectTerminalCapabilities tier2_system)
   \<and> IsTerminal (detectTerminalCapabilities tier2_system)"
  "\<not> SupportsRaw (detectTerminalCapabilities tier3_system)
   \<and> IsTerminal (detectTerminalCapabilities tier3_system)"
  "\<not> IsTerminal (detectTerminalCapabilities tier4_system) \<and> isHeadlessMode tier4_system"
  by (simp_all add: detectTerminalCapabilities_def tier2_system_def tier3_system_def
      tier4_system_def tty_system_def strings_HasPrefix_def isHeadlessMode_def)

theorem degenerate_profile_lists_witness:
  "Environments no_profiles = [] \<and> Environments one_profile = [env_staging]
   \<and> selectEnvironmentWithArrows no_profiles (initial_world (tty_system 80 24) [Data ''1''])
        = Some (Inl NoEnvironmentsConfigured, initial_world (tty_system 80 24) [Data ''1''])
   \<and> selectEnvironmentWithArrows no_profiles (initial_world tier2_system [Data ''1''])
        = Some (Inl NoEnvironmentsConfigured, initial_world tier2_system [Data ''1''])
   \<and> selectEnvironmentWithArrows no_profiles (initial_world tier3_system [Data ''1''])
        = Some (Inl NoEnvironmentsConfigured, initial_world tier3_system [Data ''1''])
   \<and> selectEnvironmentWithArrows no_profiles (initial_world tier4_system [Data ''1''])
        = Some (Inl NoEnvironmentsConfigured, initial_world tier4_system [Data ''1''])
   \<and> selectEnvironmentWithArrows one_profile (initial_world (tty_system 80 24) [Data ''1''])
        = Some (Inr env_staging, initial_world (tty_system 80 24) [Data ''1''])
   \<and> selectEnvironmentWithArrows one_profile (initial_world tier2_system [Data ''1''])
        = Some (Inr env_staging, initial_world tier2_system [Data ''1''])
   \<and> selectEnvironmentWithArrows one_profile (initial_world tier3_system [Data ''1''])
        = Some (Inr env_staging, initial_world tier3_system [Data ''1''])
   \<and> selectEnvironmentWithArrows one_profile (initial_world tier4_system [Data ''1''])
        = Some (Inr env_staging, initial_world tier4_system [Data ''1''])"
  using degenerate_profile_lists [of no_profiles _ env_staging]
    degenerate_profile_lists [of one_profile _ env_staging]
  by (simp add: no_profiles_def one_profile_def)

section \<open>Raw-mode guard\<close>

text \<open>
  C9.  Releasing a handle that was already released, or one that holds no saved state, does
  nothing and reports no error; so a second release is a no-op.  The first release of an
  acquired handle marks it restored and calls \<open>term.Restore\<close>; when that fails,
  \<open>ensureRestore\<close> appends a warning to standard error and returns nothing else to its
  caller.
\<close>

theorem restore_idempotent_nonfatal:
  "(restored ts \<or> oldState ts = None \<longrightarrow>
        restore ts sys = (None, ts) \<and> ensureRestore ts w = (ts, w))
   \<and> restore (snd (restore ts sys)) sys = (None, snd (restore ts sys))
   \<and> ensureRestore (fst (ensureRestore ts w)) (snd (ensureRestore ts w))
        = ensureRestore ts w
   \<and> (\<not> restored ts \<and> oldState ts \<noteq> None \<longrightarrow>
        restore ts sys = (restore_error sys, ts\<lparr> restored := True \<rparr>))
   \<and> (\<not> restored ts \<and> oldState ts \<noteq> None \<and> restore_error (os w) = Some err \<longrightarrow>
        ensureRestore ts w
          = (ts\<lparr> restored := True \<rparr>,
             w\<lparr> stderr := stderr w @ ''Warning: failed to restore terminal: '' @ err
                                    @ [CHR 0x0A] \<rparr>))
   \<and> (\<not> restored ts \<and> oldState ts \<noteq> None \<and> restore_error (os w) = None \<longrightarrow>
        ensureRestore ts w = (ts\<lparr> restored := True \<rparr>, w))"
  by (auto simp: restore_def ensureRestore_def print_stderr_def split: option.splits)

theorem restore_idempotent_nonfatal_witness:
  "\<not> restored acquired_handle \<and> oldState acquired_handle \<noteq> None
   \<and> restore_error (os (initial_world unrestorable_system [])) = Some ''input/output error''
   \<and> ensureRestore acquired_handle (initial_world unrestorable_system [])
        = (acquired_handle\<lparr> restored := True \<rparr>,
           (initial_world unrestorable_system [])
             \<lparr> stderr := ''Warning: failed to restore terminal: input/output error'' @ [CHR 0x0A] \<rparr>)
   \<and> restored (acquired_handle\<lparr> restored := True \<rparr>)
   \<and> ensureRestore (acquired_handle\<lparr> restored := True \<rparr>) (initial_world unrestorable_system [])
        = (acquired_handle\<lparr> restored := True \<rparr>, initial_world unrestorable_system [])
   \<and> oldState (acquired_handle\<lparr> oldState := None \<rparr>) = None
   \<and> ensureRestore (acquired_handle\<lparr> oldState := None \<rparr>) (initial_world unrestorable_system [])
        = (acquired_handle\<lparr> oldState := None \<rparr>, initial_world unrestorable_system [])
   \<and> \<not> restored acquired_handle \<and> oldState acquired_handle \<noteq> None
   \<and> restore_error (os (initial_world (tty_system 80 24) [])) = None
   \<and> ensureRestore acquired_handle (initial_world (tty_system 80 24) [])
        = (acquired_handle\<lparr> restored := True \<rparr>, initial_world (tty_system 80 24) [])"
  using restore_idempotent_nonfatal
      [of acquired_handle unrestorable_system "initial_world unrestorable_system []"
          "''input/output error''"]
    restore_idempotent_nonfatal
      [of "acquired_handle\<lparr> restored := True \<rparr>" unrestorable_system
          "initial_world unrestorable_system []" "''input/output error''"]
    restore_idempotent_nonfatal
      [of "acquired_handle\<lparr> oldState := None \<rparr>" unrestorable_system
          "initial_world unrestorable_system []" "''input/output error''"]
    restore_idempotent_nonfatal
      [of acquired_handle "tty_system 80 24" "initial_world (tty_system 80 24) []"
          "''input/output error''"]
  by (simp add: acquired_handle_def unrestorable_system_def initial_world_def tty_system_def)

text \<open>In the two interactive tiers the guard is released after the loop has produced its
  result, and the result is returned whatever the release does.\<close>

lemma interactive_result_survives_release:
  assumes "make_raw_ok (os w)"
  shows "selection_loop True config 0 w = Some (r, w1) \<Longrightarrow>
           \<exists>w2. fullInteractiveSelection config caps w = Some (r, w2)"
    and "selection_loop False config 0 w = Some (r, w1) \<Longrightarrow>
           \<exists>w2. basicInteractiveSelection config caps w = Some (r, w2)"
  using assms by (simp_all add: fullInteractiveSelection_def basicInteractiveSelection_def)

section \<open>Rendering does not panic\<close>

text \<open>
  On a terminal that is at least three columns wide the menu functions return: no slice
  is out of range and no repeat count is negative.  They change standard output and the
  two global variables and nothing else.
\<close>

lemma stdout_only_refl [simp]: "stdout_only w w"
  unfolding stdout_only_def by (rule exI [of _ "stdout w"]) simp

lemma stdout_only_trans: "stdout_only w w1 \<Longrightarrow> stdout_only w1 w2 \<Longrightarrow> stdout_only w w2"
  by (auto simp: stdout_only_def)

lemma stdout_only_print [simp]: "stdout_only w (print s w)"
  unfolding stdout_only_def print_def fmt_Print_def
  by (cases "stdout_write_error (os w)") (auto intro: exI [of _ "stdout w"])

lemma stdout_only_print_trans: "stdout_only w w1 \<Longrightarrow> stdout_only w (print s w1)"
  using stdout_only_trans stdout_only_print by blast

lemma stdout_only_fields:
  assumes "stdout_only w w1"
  shows "os w1 = os w" "stdin w1 = stdin w" "stderr w1 = stderr w"
    "globalDisplayState w1 = globalDisplayState w" "globalLineRenderer w1 = globalLineRenderer w"
  using assms by (auto simp: stdout_only_def)

lemma ClearLine_ok: "0 \<le> tp_width tp \<Longrightarrow> \<exists>line. ClearLine tp = Some line"
  by (simp add: ClearLine_def ClearToEndOfLine_def strings_Repeat_def)

lemma clear_lines_ok:
  assumes "0 \<le> tp_width tp"
  shows "\<exists>w1. clear_lines tp k w = Some w1 \<and> stdout_only w w1"
proof (induction k arbitrary: w)
  case 0
  then show ?case by simp
next
  case (Suc k)
  from ClearLine_ok [OF assms] obtain line where line: "ClearLine tp = Some line" by blast
  define w2 where "w2 = (if 0 < k then print [CHR 0x0A] (print line w) else print line w)"
  have so: "stdout_only w w2"
    by (simp add: w2_def stdout_only_print_trans)
  from Suc.IH [of w2] obtain w1 where "clear_lines tp k w2 = Some w1" "stdout_only w2 w1"
    by blast
  with so line show ?case
    by (auto simp: w2_def Let_def intro: stdout_only_trans)
qed

lemma clearScreen_ok:
  assumes "0 \<le> Width (detectTerminalCapabilities (os w))"
  shows "\<exists>w1. clearScreen w = Some w1 \<and> stdout_only w w1"
proof -
  define tp where "tp = \<lparr> tp_width = Width (detectTerminalCapabilities (os w)) \<rparr>"
  define n where "n = (if Height (detectTerminalCapabilities (os w)) > 0
                       then Height (detectTerminalCapabilities (os w)) else 25)"
  have "0 \<le> tp_width tp" using assms by (simp add: tp_def)
  from clear_lines_ok [OF this, of "nat n" w] obtain w1 where
    w1: "clear_lines tp (nat n) w = Some w1" "stdout_only w w1" by blast
  have "0 \<le> n" by (simp add: n_def)
  then obtain r where r: "strings_Repeat [CHR 0x0D] n = Some r"
    by (simp add: strings_Repeat_def)
  have "clearScreen w = Some (print r w1)"
    using w1 r by (simp add: clearScreen_def Let_def tp_def [symmetric] n_def [symmetric])
  with w1 show ?thesis
    by (simp add: stdout_only_print_trans)
qed

lemma OverwriteLine_ok:
  assumes "3 \<le> tp_width tp"
  shows "\<exists>out. OverwriteLine tp content = Some out"
  using assms
  by (auto simp: OverwriteLine_def slice_to_def strings_Repeat_def go_len_def)

lemma print_lines_ok:
  assumes "3 \<le> tp_width tp"
  shows "\<exists>w1. print_lines tp lines first w = Some w1 \<and> stdout_only w w1"
proof (induction lines arbitrary: w first)
  case Nil
  then show ?case by simp
next
  case (Cons line rest)
  from OverwriteLine_ok [OF assms] obtain out where out: "OverwriteLine tp line = Some out"
    by blast
  define w2 where "w2 = (if first then print out w else print out (print [CHR 0x0A] w))"
  have so: "stdout_only w w2"
    by (simp add: w2_def stdout_only_print_trans)
  from Cons.IH [of False w2] obtain w1 where "print_lines tp rest False w2 = Some w1"
    "stdout_only w2 w1" by blast
  with so out show ?case
    by (auto simp: w2_def Let_def intro: stdout_only_trans)
qed

lemma renderFullContent_ok:
  assumes "globalLineRenderer w = Some lr" and "globalDisplayState w = Some st"
    and "3 \<le> tp_width (positioner lr)" and "0 \<le> Width (detectTerminalCapabilities (os w))"
  shows "\<exists>w1. renderFullContent w = Some w1 \<and> stdout_only w w1"
proof -
  from clearScreen_ok [OF assms(4)] obtain w1 where
    w1: "clearScreen w = Some w1" "stdout_only w w1" by blast
  from stdout_only_fields [OF w1(2)] assms have g: "globalLineRenderer w1 = Some lr"
    "globalDisplayState w1 = Some st" by simp_all
  from print_lines_ok [OF assms(3), of "currentLines st" True w1] obtain w2 where
    w2: "print_lines (positioner lr) (currentLines st) True w1 = Some w2" "stdout_only w1 w2"
    by blast
  have "renderFullContent w = Some w2"
    using w1 g w2 by (simp add: renderFullContent_def)
  with w1 w2 show ?thesis
    by (auto intro: stdout_only_trans)
qed

lemma formatSingleLine_total: "\<exists>line. formatSingleLine df prefix env = Some line"
proof (cases "20 \<le> layout_Width (layout df) - go_len prefix - 6")
  case True
  from formatSingleLine_full_fits [OF this] show ?thesis by blast
next
  case False
  then show ?thesis by (simp add: formatSingleLine_minimal)
qed

lemma menu_lines_ok: "\<exists>lines. menu_lines formatter ansi selectedIndex i envs = Some lines"
proof (induction envs arbitrary: i)
  case Nil
  then show ?case by simp
next
  case (Cons env rest)
  obtain line where "formatSingleLine formatter
      (if i = selectedIndex then (if ansi then arrow_prefix else ''* '') else ''  '') env = Some line"
    using formatSingleLine_total by blast
  moreover obtain lines where "menu_lines formatter ansi selectedIndex (i + 1) rest = Some lines"
    using Cons.IH by blast
  ultimately show ?case by (simp add: Let_def)
qed

lemma RenderMenu_ok:
  assumes "globalLineRenderer w = Some lr" and "globalDisplayState w = Some st"
    and "3 \<le> tp_width (positioner lr)" and "0 \<le> Width (detectTerminalCapabilities (os w))"
  shows "\<exists>w1. RenderMenu environments selectedIndex header w = Some w1
           \<and> os w1 = os w \<and> stdin w1 = stdin w \<and> stderr w1 = stderr w
           \<and> globalDisplayState w1 \<noteq> None \<and> globalLineRenderer w1 = Some lr"
proof (cases "initialized st")
  case False
  with assms show ?thesis by (simp add: RenderMenu_def)
next
  case True
  obtain lines where lines: "menu_lines (newDisplayFormatter (detectTerminalLayout (os w)))
      (useANSI lr) selectedIndex 0 environments = Some lines"
    using menu_lines_ok by blast
  define st1 where "st1 = UpdateContent st ((if header \<noteq> '''' then [header] else []) @ lines)
      selectedIndex"
  define w1 where "w1 = w\<lparr> globalDisplayState := Some st1 \<rparr>"
  have g: "globalLineRenderer w1 = Some lr" "globalDisplayState w1 = Some st1"
    "0 \<le> Width (detectTerminalCapabilities (os w1))"
    using assms by (simp_all add: w1_def)
  from renderFullContent_ok [OF g(1) g(2) assms(3) g(3)] obtain w2 where
    w2: "renderFullContent w1 = Some w2" "stdout_only w1 w2" by blast
  have eq: "RenderMenu environments selectedIndex header w =
      (if contentChanged st1 then Some w2 else if selectionChanged st1 then Some w2 else Some w1)"
    using assms(1,2) True lines w2(1)
    by (simp add: RenderMenu_def Let_def st1_def [symmetric] w1_def [symmetric]
        renderSelectionChange_def)
  from stdout_only_fields [OF w2(2)] g have
    "os w2 = os w" "stdin w2 = stdin w" "stderr w2 = stderr w"
    "globalDisplayState w2 \<noteq> None" "globalLineRenderer w2 = Some lr"
    by (simp_all add: w1_def)
  moreover have "os w1 = os w" "stdin w1 = stdin w" "stderr w1 = stderr w"
    "globalDisplayState w1 \<noteq> None" "globalLineRenderer w1 = Some lr"
    using g by (simp_all add: w1_def)
  ultimately show ?thesis
    unfolding eq by auto
qed

lemma renderMenuStatefully_ok:
  assumes "3 \<le> Width (detectTerminalCapabilities (os w))" and "globals_consistent w"
  shows "\<exists>w1. renderMenuStatefully environments selectedIndex header ansi w = Some w1
           \<and> os w1 = os w \<and> stdin w1 = stdin w \<and> stderr w1 = stderr w
           \<and> globalDisplayState w1 \<noteq> None \<and> globals_consistent w1"
proof -
  define caps where "caps = detectTerminalCapabilities (os w)"
  have "\<exists>wa st lr. (if globalDisplayState w = None
                   then (let st = initializeDisplayState (os w);
                             lr = \<lparr> positioner = \<lparr> tp_width = terminalWidth st \<rparr>, useANSI = ansi \<rparr>
                         in clearScreen (w\<lparr> globalDisplayState := Some st,
                                             globalLineRenderer := Some lr \<rparr>))
                   else Some w) = Some wa
          \<and> os wa = os w \<and> stdin wa = stdin w \<and> stderr wa = stderr w
          \<and> globalDisplayState wa = Some st \<and> globalLineRenderer wa = Some lr"
  proof (cases "globalDisplayState w = None")
    case True
    define st where "st = initializeDisplayState (os w)"
    define lr where "lr = \<lparr> positioner = \<lparr> tp_width = terminalWidth st \<rparr>, useANSI = ansi \<rparr>"
    define wi where "wi = w\<lparr> globalDisplayState := Some st, globalLineRenderer := Some lr \<rparr>"
    have "0 \<le> Width (detectTerminalCapabilities (os wi))"
      using assms(1) by (simp add: wi_def)
    from clearScreen_ok [OF this] obtain wa where wa: "clearScreen wi = Some wa" "stdout_only wi wa"
      by blast
    from stdout_only_fields [OF wa(2)] have "os wa = os w" "stdin wa = stdin w" "stderr wa = stderr w"
      "globalDisplayState wa = Some st" "globalLineRenderer wa = Some lr"
      by (simp_all add: wi_def)
    with True wa(1) show ?thesis
      by (simp add: Let_def st_def [symmetric] lr_def [symmetric] wi_def [symmetric])
  next
    case False
    with assms(2) show ?thesis by (auto simp: globals_consistent_def)
  qed
  then obtain wa st lr where wa: "(if globalDisplayState w = None
                   then (let st = initializeDisplayState (os w);
                             lr = \<lparr> positioner = \<lparr> tp_width = terminalWidth st \<rparr>, useANSI = ansi \<rparr>
                         in clearScreen (w\<lparr> globalDisplayState := Some st,
                                             globalLineRenderer := Some lr \<rparr>))
                   else Some w) = Some wa"
    and f: "os wa = os w" "stdin wa = stdin w" "stderr wa = stderr w"
      "globalDisplayState wa = Some st" "globalLineRenderer wa = Some lr"
    by blast
  define wb where "wb = wa\<lparr> globalDisplayState :=
                    Some (st\<lparr> terminalWidth := Width caps, terminalHeight := Height caps \<rparr>),
                  globalLineRenderer :=
                    Some (lr\<lparr> positioner := \<lparr> tp_width = Width caps \<rparr> \<rparr>) \<rparr>"
  have "\<exists>w1. RenderMenu environments selectedIndex header wb = Some w1
           \<and> os w1 = os wb \<and> stdin w1 = stdin wb \<and> stderr w1 = stderr wb
           \<and> globalDisplayState w1 \<noteq> None
           \<and> globalLineRenderer w1 = Some (lr\<lparr> positioner := \<lparr> tp_width = Width caps \<rparr> \<rparr>)"
    using assms(1) f
    by (intro RenderMenu_ok [where st = "st\<lparr> terminalWidth := Width caps, terminalHeight := Height caps \<rparr>"])
      (simp_all add: wb_def caps_def)
  then obtain w1 where w1: "RenderMenu environments selectedIndex header wb = Some w1"
    "os w1 = os wb" "stdin w1 = stdin wb" "stderr w1 = stderr wb"
    "globalDisplayState w1 \<noteq> None" "globalLineRenderer w1 \<noteq> None"
    by auto
  have "renderMenuStatefully environments selectedIndex header ansi w = Some w1"
    unfolding renderMenuStatefully_def wa
    using f w1(1) by (simp add: Let_def wb_def caps_def)
  with w1 f show ?thesis
    by (simp add: wb_def globals_consistent_def)
qed

section \<open>Arrow keys in the interactive tiers\<close>

lemma display_ok:
  assumes "3 \<le> Width (detectTerminalCapabilities (os w))" and "globals_consistent w"
  shows "\<exists>w1. (if ansi then displayEnvironmentMenu environments selectedIndex w
               else displayBasicEnvironmentMenu environments selectedIndex w) = Some w1
           \<and> os w1 = os w \<and> stdin w1 = stdin w \<and> stderr w1 = stderr w
           \<and> globals_consistent w1"
  using renderMenuStatefully_ok [OF assms]
  by (cases ansi) (simp_all add: displayEnvironmentMenu_def displayBasicEnvironmentMenu_def, blast+)

lemma go_rem_nonneg: "0 \<le> a \<Longrightarrow> 0 < b \<Longrightarrow> go_rem a b = Some (a mod b)"
  by (simp add: go_rem_def signed_modulo_int_def sgn_if)

lemma handle_key_arrows:
  assumes "2 \<le> go_len environments" and "0 \<le> selectedIndex"
    and "selectedIndex < go_len environments"
  shows "handle_key environments selectedIndex ArrowUp char
           = Some (Continue ((selectedIndex - 1 + go_len environments) mod go_len environments))"
    and "handle_key environments selectedIndex ArrowDown char
           = Some (Continue ((selectedIndex + 1) mod go_len environments))"
  using assms by (simp_all add: handle_key_def go_rem_nonneg)

text \<open>One turn of the loop that goes on: the menu is displayed, a read returns a key that is
  parsed, and the key leaves the loop running with index \<open>i\<close>.\<close>

lemma selection_loop_step:
  assumes "(if ansi then displayEnvironmentMenu (Environments config) selectedIndex w
            else displayBasicEnvironmentMenu (Environments config) selectedIndex w) = Some w1"
    and "stdin_Read 10 w1 = (Inr buffer, w2)"
    and "parseKeyInput buffer = (arrow, char, None)"
    and "handle_key (Environments config) selectedIndex arrow char = Some (Continue i)"
  shows "selection_loop ansi config selectedIndex w = selection_loop ansi config i w2"
  using assms by (subst selection_loop.simps) (simp del: if_split cong: if_cong)


lemma up_enter_world_facts:
  "os up_enter_world = tty_system 80 24"
  "stdin up_enter_world = [Data [CHR 0x1B, CHR ''['', CHR ''A''], Data [CHR 0x0D]]"
  "globals_consistent up_enter_world"
  "3 \<le> Width (detectTerminalCapabilities (os up_enter_world))"
  by (simp_all add: up_enter_world_def initial_world_def globals_consistent_def)

lemma up_enter_world_shown_facts:
  "displayEnvironmentMenu (Environments two_profiles) 0 up_enter_world = Some up_enter_world_shown"
  "os up_enter_world_shown = tty_system 80 24"
  "stdin up_enter_world_shown = [Data [CHR 0x1B, CHR ''['', CHR ''A''], Data [CHR 0x0D]]"
  "globals_consistent up_enter_world_shown"
proof -
  from display_ok [OF up_enter_world_facts(4) up_enter_world_facts(3),
      of True "Environments two_profiles" 0]
  obtain w1 where w1: "displayEnvironmentMenu (Environments two_profiles) 0 up_enter_world = Some w1"
    "os w1 = os up_enter_world" "stdin w1 = stdin up_enter_world" "globals_consistent w1"
    by auto
  then have "up_enter_world_shown = w1"
    by (simp add: up_enter_world_shown_def)
  with w1 show
    "displayEnvironmentMenu (Environments two_profiles) 0 up_enter_world = Some up_enter_world_shown"
    "os up_enter_world_shown = tty_system 80 24"
    "stdin up_enter_world_shown = [Data [CHR 0x1B, CHR ''['', CHR ''A''], Data [CHR 0x0D]]"
    "globals_consistent up_enter_world_shown"
    by (simp_all add: up_enter_world_facts)
qed

lemma up_enter_world_read:
  "stdin_Read 10 up_enter_world_shown
     = (Inr [CHR 0x1B, CHR ''['', CHR ''A''], up_enter_world_shown\<lparr> stdin := [Data [CHR 0x0D]] \<rparr>)"
  by (simp add: stdin_Read_def up_enter_world_shown_facts(3))


text \<open>The whole selection on that terminal: up from the first of two profiles and Enter
  returns the second one.\<close>

lemma up_then_enter_selects_last:
  "\<exists>w. selectEnvironmentWithArrows two_profiles up_enter_world = Some (Inr env_staging, w)"
proof -
  define w2 where "w2 = up_enter_world_shown\<lparr> stdin := [Data [CHR 0x0D]] \<rparr>"
  have n: "go_len (Environments two_profiles) = 2"
    by (simp add: two_profiles_def go_len_def)
  have d: "(if True then displayEnvironmentMenu (Environments two_profiles) 0 up_enter_world
           else displayBasicEnvironmentMenu (Environments two_profiles) 0 up_enter_world)
          = Some up_enter_world_shown"
    by (simp add: up_enter_world_shown_facts(1))
  have k: "handle_key (Environments two_profiles) 0 ArrowUp 0 = Some (Continue 1)"
    using handle_key_arrows(1) [of "Environments two_profiles" 0 0] by (simp add: n)
  have p: "parseKeyInput [CHR 0x1B, CHR ''['', CHR ''A''] = (ArrowUp, 0, None)"
    by (simp add: parseKeyInput_def)
  have step1: "selection_loop True two_profiles 0 up_enter_world
        = selection_loop True two_profiles 1 w2"
    unfolding w2_def by (rule selection_loop_step [OF d up_enter_world_read p k])
  have "3 \<le> Width (detectTerminalCapabilities (os w2))" "globals_consistent w2"
    using up_enter_world_shown_facts(2,4) by (simp_all add: w2_def globals_consistent_def)
  from display_ok [OF this, of True "Environments two_profiles" 1]
  obtain w3 where w3: "displayEnvironmentMenu (Environments two_profiles) 1 w2 = Some w3"
    "stdin w3 = stdin w2"
    by auto
  have rd: "stdin_Read 10 w3 = (Inr [CHR 0x0D], w3\<lparr> stdin := [] \<rparr>)"
    using w3(2) by (simp add: stdin_Read_def w2_def)
  have step2: "selection_loop True two_profiles 1 w2 = Some (Inr env_staging, w3\<lparr> stdin := [] \<rparr>)"
    using w3(1) rd
    by (subst selection_loop.simps)
      (simp add: parseKeyInput_def handle_key_def go_index_def go_len_def two_profiles_def)
  have "fullInteractiveSelection two_profiles (detectTerminalCapabilities (tty_system 80 24))
          up_enter_world
        = Some (Inr env_staging,
            snd (ensureRestore (\<lparr> fd = 0, oldState = None, restored = False \<rparr>
                                   \<lparr> oldState := Some SavedState \<rparr>)
                   (cleanupDisplayState (w3\<lparr> stdin := [] \<rparr>))))"
    using step1 step2
    by (simp add: fullInteractiveSelection_def up_enter_world_facts(1) tty_system_def)
  then show ?thesis
    using tier_capabilities(1)
    by (simp add: selectEnvironmentWithArrows_def two_profiles_def go_len_def
        up_enter_world_facts(1) detectTerminalCapabilities_tty)
qed

end
